theory Spec2Isabelle
  imports Complex_Main "HOL-Library.Log_Nat"
begin

section \<open>Numbers and dynamic values\<close>

text \<open>
  The program is TypeScript; its numbers are IEEE doubles. The document totals and the
  figures compared between two runs are stated over exact reals: there a finite double
  is the real it denotes, and rounding, overflow and the infinities are outside the
  model. The one special value the source itself tests for is NaN (in \<open>x || 0\<close>), so
  a number read from a document is either a real or NaN. The parts whose result hangs on
  the comparison of a computed number with 0 are stated in the arithmetic of doubles,
  introduced below.
\<close>

datatype jsnum = Num real | NaN

text \<open>\<open>x || 0\<close> on a number: NaN and 0 are falsy and give 0, any other number is itself.\<close>

fun or0 :: "jsnum \<Rightarrow> real" where
  "or0 NaN = 0"
| "or0 (Num x) = x"

text \<open>
  An item is an open record (\<open>[key: ColumnKey]: any\<close>): its fields hold arbitrary
  primitive values.
\<close>

datatype jsval = JUndefined | JNull | JBool bool | JNumber jsnum | JString string

text \<open>
  \<open>Number(v)\<close>. The conversion of a string is the language's own \<open>StringToNumber\<close>;
  it is a parameter \<open>sn\<close> of everything that calls \<open>Number\<close>, so that each result
  holds for whatever a string converts to.
\<close>

fun Number :: "(string \<Rightarrow> jsnum) \<Rightarrow> jsval \<Rightarrow> jsnum" where
  "Number sn JUndefined = NaN"
| "Number sn JNull = Num 0"
| "Number sn (JBool b) = Num (if b then 1 else 0)"
| "Number sn (JNumber n) = n"
| "Number sn (JString s) = sn s"

type_synonym Item = "string \<rightharpoonup> jsval"

text \<open>\<open>item[key]\<close>: a missing property reads as \<open>undefined\<close>.\<close>

definition getProp :: "Item \<Rightarrow> string \<Rightarrow> jsval" where
  "getProp item k = (case item k of None \<Rightarrow> JUndefined | Some v \<Rightarrow> v)"

section \<open>The arithmetic of doubles\<close>

text \<open>
  Where the program compares a computed number with 0 and the outcome decides the
  result (the guard of the fixed markup, the zero-rate test of the payment plan), the
  rounding of its numbers matters. For these parts the numbers are IEEE 754 binary64
  values: a finite value is the real it denotes, and every operation rounds the exact
  result to the nearest double, ties to the even significand, with gradual underflow
  and with overflow to an infinity. The sign of a zero is not modelled: no expression
  modelled here divides by a zero that could be negative.
\<close>

datatype double = Finite real | PosInf | NegInf | NaNd

text \<open>The integer nearest to \<open>x\<close>, the even one of the two when \<open>x\<close> is half-way.\<close>

definition roundHalfEven :: "real \<Rightarrow> int" where
  "roundHalfEven x =
     (let f = \<lfloor>x\<rfloor>; d = x - of_int f
      in if d < 1 / 2 then f else if 1 / 2 < d then f + 1 else if even f then f else f + 1)"

text \<open>The power of two \<open>2\<^sup>e\<close>, and the \<open>e\<close> with \<open>2\<^sup>e \<le> |x| < 2\<^sup>e\<^sup>+\<^sup>1\<close> for \<open>x\<close> other than 0.\<close>

definition pow2 :: "int \<Rightarrow> real" where
  "pow2 e = (if 0 \<le> e then 2 ^ nat e else 1 / 2 ^ nat (- e))"

definition exponentOf :: "real \<Rightarrow> int" where
  "exponentOf x =
     (if 1 \<le> \<bar>x\<bar> then bitlen \<lfloor>\<bar>x\<bar>\<rfloor> - 1 else - bitlen (\<lceil>1 / \<bar>x\<bar>\<rceil> - 1))"

text \<open>
  The spacing of the doubles around \<open>x\<close>: 52 binary places below the exponent, the
  exponent not below -1022.
\<close>

definition quantum :: "real \<Rightarrow> real" where
  "quantum x = pow2 (max (exponentOf x) (- 1022) - 52)"

definition roundTo :: "real \<Rightarrow> real \<Rightarrow> real" where
  "roundTo q x = of_int (roundHalfEven (x / q)) * q"

definition signedInf :: "bool \<Rightarrow> double" where
  "signedInf positive = (if positive then PosInf else NegInf)"

definition clip :: "real \<Rightarrow> double" where
  "clip r = (if pow2 1024 \<le> \<bar>r\<bar> then signedInf (0 < r) else Finite r)"

text \<open>The double nearest to the real \<open>x\<close>: the result of an operation whose exact value is \<open>x\<close>.\<close>

definition fl :: "real \<Rightarrow> double" where
  "fl x = (if x = 0 then Finite 0 else clip (roundTo (quantum x) x))"

text \<open>\<open>a + b\<close>, \<open>-a\<close>, \<open>a - b\<close>, \<open>a * b\<close> and \<open>a / b\<close>.\<close>

fun dadd :: "double \<Rightarrow> double \<Rightarrow> double" where
  "dadd (Finite a) (Finite b) = fl (a + b)"
| "dadd NaNd y = NaNd"
| "dadd x NaNd = NaNd"
| "dadd PosInf NegInf = NaNd"
| "dadd NegInf PosInf = NaNd"
| "dadd PosInf y = PosInf"
| "dadd NegInf y = NegInf"
| "dadd x PosInf = PosInf"
| "dadd x NegInf = NegInf"

fun dneg :: "double \<Rightarrow> double" where
  "dneg (Finite a) = Finite (- a)"
| "dneg PosInf = NegInf"
| "dneg NegInf = PosInf"
| "dneg NaNd = NaNd"

definition dsub :: "double \<Rightarrow> double \<Rightarrow> double" where
  "dsub x y = dadd x (dneg y)"

fun dmul :: "double \<Rightarrow> double \<Rightarrow> double" where
  "dmul (Finite a) (Finite b) = fl (a * b)"
| "dmul NaNd y = NaNd"
| "dmul x NaNd = NaNd"
| "dmul (Finite a) PosInf = (if a = 0 then NaNd else signedInf (0 < a))"
| "dmul (Finite a) NegInf = (if a = 0 then NaNd else signedInf (a < 0))"
| "dmul PosInf (Finite b) = (if b = 0 then NaNd else signedInf (0 < b))"
| "dmul NegInf (Finite b) = (if b = 0 then NaNd else signedInf (b < 0))"
| "dmul PosInf PosInf = PosInf"
| "dmul PosInf NegInf = NegInf"
| "dmul NegInf PosInf = NegInf"
| "dmul NegInf NegInf = PosInf"

fun ddiv :: "double \<Rightarrow> double \<Rightarrow> double" where
  "ddiv (Finite a) (Finite b) =
     (if b = 0 then (if a = 0 then NaNd else signedInf (0 < a)) else fl (a / b))"
| "ddiv NaNd y = NaNd"
| "ddiv x NaNd = NaNd"
| "ddiv (Finite a) PosInf = Finite 0"
| "ddiv (Finite a) NegInf = Finite 0"
| "ddiv PosInf (Finite b) = signedInf (0 \<le> b)"
| "ddiv NegInf (Finite b) = signedInf (b < 0)"
| "ddiv PosInf y = NaNd"
| "ddiv NegInf y = NaNd"

text \<open>\<open>a < b\<close>, \<open>a <= b\<close> and \<open>a === b\<close>: false whenever an operand is NaN.\<close>

fun dless :: "double \<Rightarrow> double \<Rightarrow> bool" where
  "dless (Finite a) (Finite b) = (a < b)"
| "dless NaNd y = False"
| "dless x NaNd = False"
| "dless x NegInf = False"
| "dless PosInf y = False"
| "dless NegInf y = True"
| "dless x PosInf = True"

fun deq :: "double \<Rightarrow> double \<Rightarrow> bool" where
  "deq NaNd y = False"
| "deq x NaNd = False"
| "deq x y = (x = y)"

definition dle :: "double \<Rightarrow> double \<Rightarrow> bool" where
  "dle x y \<longleftrightarrow> dless x y \<or> deq x y"



section \<open>The document tree\<close>

record Subcategory =
  subId :: string
  subName :: string
  items :: "Item list"

datatype MarkupType = MarkupNone | Percentage | Fixed

datatype MarkupDistribution = Proportional | PerItem

record CostCategory =
  catId :: string
  catName :: string
  subcategories :: "Subcategory list"
  showItems :: bool
  visibleColumns :: "string \<rightharpoonup> bool"
  markupApplications :: nat
  applyVat :: bool
  markupType :: MarkupType
  markupValue :: jsnum
  markupDistribution :: MarkupDistribution

text \<open>
  Of \<open>DocumentState\<close> the fields the pricing code reads, and the ones that identify
  the document; the other fields (client, layout, coupon, signatures) are read by no
  function modelled here.
\<close>

record DocumentState =
  docId :: string
  title :: string
  docNumber :: string
  categories :: "CostCategory list"
  showVat :: bool
  vatRate :: jsnum
  currency :: string

record Totals =
  subtotal :: real
  tax :: real
  total :: real

text \<open>The items of a category, over all its subcategories, in document order.\<close>

definition allItems :: "CostCategory \<Rightarrow> Item list" where
  "allItems category = concat (map items (subcategories category))"

section \<open>Pricing engine\<close>

text \<open>\<open>(Number(item.quantity) || 0) * (Number(item.unitPrice) || 0)\<close>\<close>

definition itemSubtotal :: "(string \<Rightarrow> jsnum) \<Rightarrow> Item \<Rightarrow> real" where
  "itemSubtotal sn item =
     or0 (Number sn (getProp item ''quantity'')) * or0 (Number sn (getProp item ''unitPrice''))"

text \<open>
  The two nested \<open>forEach\<close> loops of \<open>calculateTotals\<close> that add every item of every
  subcategory to \<open>categoryRawSubtotal\<close>, starting from 0.
\<close>

definition categoryRawSubtotal :: "(string \<Rightarrow> jsnum) \<Rightarrow> CostCategory \<Rightarrow> real" where
  "categoryRawSubtotal sn category =
     foldl (\<lambda>acc sub. foldl (\<lambda>acc item. acc + itemSubtotal sn item) acc (items sub))
       0 (subcategories category)"

text \<open>The markup step: \<open>categoryTotalWithMarkups\<close> of \<open>calculateTotals\<close>.\<close>

definition categoryTotalWithMarkups :: "(string \<Rightarrow> jsnum) \<Rightarrow> CostCategory \<Rightarrow> real" where
  "categoryTotalWithMarkups sn category =
     (let categoryRawSubtotal = categoryRawSubtotal sn category in
      if markupType category = Percentage
      then categoryRawSubtotal + categoryRawSubtotal * (or0 (markupValue category) / 100)
      else if markupType category = Fixed
      then categoryRawSubtotal + or0 (markupValue category)
      else categoryRawSubtotal)"

text \<open>
  One round of the loop over \<open>doc.categories\<close>: the state is the pair
  \<open>(subtotalWithMarkups, tax)\<close>.
\<close>

definition totalsStep :: "(string \<Rightarrow> jsnum) \<Rightarrow> DocumentState \<Rightarrow> real \<times> real \<Rightarrow> CostCategory \<Rightarrow> real \<times> real" where
  "totalsStep sn doc acc category =
     (let t = categoryTotalWithMarkups sn category;
          tax' = (if showVat doc \<and> applyVat category
                  then snd acc + t * (or0 (vatRate doc) / 100)
                  else snd acc)
      in (fst acc + t, tax'))"

definition calculateTotals :: "(string \<Rightarrow> jsnum) \<Rightarrow> DocumentState \<Rightarrow> Totals" where
  "calculateTotals sn doc =
     (let acc = foldl (totalsStep sn doc) (0, 0) (categories doc) in
      \<lparr>subtotal = fst acc, tax = snd acc, total = fst acc + snd acc\<rparr>)"

subsection \<open>The totals as the specification words them\<close>

text \<open>
  The raw subtotal of a category, its total with markup and its VAT, as sums and
  products over the document; \<open>calculateTotals\<close> is compared with these. A field that
  holds NaN counts as 0, as in the code.
\<close>

definition specRawSubtotal :: "(string \<Rightarrow> jsnum) \<Rightarrow> CostCategory \<Rightarrow> real" where
  "specRawSubtotal sn category =
     (\<Sum>item \<leftarrow> allItems category.
        or0 (Number sn (getProp item ''quantity'')) * or0 (Number sn (getProp item ''unitPrice'')))"

definition specCategoryTotal :: "(string \<Rightarrow> jsnum) \<Rightarrow> CostCategory \<Rightarrow> real" where
  "specCategoryTotal sn category =
     (case markupType category of
        MarkupNone \<Rightarrow> specRawSubtotal sn category
      | Percentage \<Rightarrow> specRawSubtotal sn category * (1 + or0 (markupValue category) / 100)
      | Fixed \<Rightarrow> specRawSubtotal sn category + or0 (markupValue category))"

definition specCategoryVat :: "(string \<Rightarrow> jsnum) \<Rightarrow> DocumentState \<Rightarrow> CostCategory \<Rightarrow> real" where
  "specCategoryVat sn doc category =
     (if showVat doc \<and> applyVat category
      then specCategoryTotal sn category * (or0 (vatRate doc) / 100)
      else 0)"

subsection \<open>Per-item figures of the preview\<close>

text \<open>
  A division whose divisor is 0 gives NaN or an infinity in the program, values that have
  no real counterpart: the quotient is \<open>None\<close> there. A figure of type
  \<open>real option\<close> is \<open>None\<close> exactly when the program's value is not a finite
  number.
\<close>

definition jsdiv :: "real \<Rightarrow> real \<Rightarrow> real option" where
  "jsdiv a b = (if b = 0 then None else Some (a / b))"

text \<open>
  \<open>categoryRawSubtotal\<close> of \<open>DocumentPreview\<close>: the same raw subtotal, written
  with two nested \<open>reduce\<close> calls, the inner one starting from 0. The PDF exporter
  and the item table of the editor compute the raw subtotal, the markup cell and the VAT
  cell with the same expressions as the preview.
\<close>

definition previewRawSubtotal :: "(string \<Rightarrow> jsnum) \<Rightarrow> CostCategory \<Rightarrow> real" where
  "previewRawSubtotal sn category =
     foldl (\<lambda>catAcc sub.
              catAcc + foldl (\<lambda>subAcc item. subAcc + itemSubtotal sn item) 0 (items sub))
       0 (subcategories category)"

text \<open>\<open>calculateCategoryTotal\<close> of \<open>DocumentPreview\<close>.\<close>

definition calculateCategoryTotal :: "(string \<Rightarrow> jsnum) \<Rightarrow> CostCategory \<Rightarrow> real" where
  "calculateCategoryTotal sn category =
     (let categoryRawSubtotal =
            foldl (\<lambda>acc sub. foldl (\<lambda>acc item. acc + itemSubtotal sn item) acc (items sub))
              0 (subcategories category)
      in if markupType category = Percentage
         then categoryRawSubtotal + categoryRawSubtotal * (or0 (markupValue category) / 100)
         else if markupType category = Fixed
         then categoryRawSubtotal + or0 (markupValue category)
         else categoryRawSubtotal)"

text \<open>
  The \<open>markup\<close> cell of an item row: \<open>itemMarkup\<close> starts at 0; a percentage markup
  sets it to the item's share of the percentage, a fixed markup to the item's share of
  the amount when the raw subtotal is positive.
\<close>

definition itemMarkup :: "(string \<Rightarrow> jsnum) \<Rightarrow> CostCategory \<Rightarrow> Item \<Rightarrow> real option" where
  "itemMarkup sn category item =
     (let categoryRawSubtotal = previewRawSubtotal sn category;
          itemSubtotal = itemSubtotal sn item
      in if markupType category = Percentage
         then Some (itemSubtotal * (or0 (markupValue category) / 100))
         else if markupType category = Fixed
         then (if categoryRawSubtotal > 0
               then map_option (\<lambda>q. q * or0 (markupValue category))
                      (jsdiv itemSubtotal categoryRawSubtotal)
               else Some 0)
         else Some 0)"

text \<open>
  The \<open>vat\<close> cell: \<open>(itemSubtotal + itemMarkup) * (vatRate / 100)\<close> under the two
  flags, else 0. The rate is read without \<open>|| 0\<close> here, so a NaN rate gives NaN.
\<close>

definition vatOnItem :: "(string \<Rightarrow> jsnum) \<Rightarrow> DocumentState \<Rightarrow> CostCategory \<Rightarrow> Item \<Rightarrow> real option" where
  "vatOnItem sn doc category item =
     (if showVat doc \<and> applyVat category
      then (case (itemMarkup sn category item, vatRate doc) of
              (Some m, Num r) \<Rightarrow> Some ((itemSubtotal sn item + m) * (r / 100))
            | _ \<Rightarrow> None)
      else Some 0)"

text \<open>
  The category block under the table: \<open>categorySubtotal\<close>, \<open>categoryVat\<close> and
  \<open>categoryTotalWithVat\<close>.
\<close>

definition categoryVat :: "(string \<Rightarrow> jsnum) \<Rightarrow> DocumentState \<Rightarrow> CostCategory \<Rightarrow> real option" where
  "categoryVat sn doc category =
     (if showVat doc \<and> applyVat category
      then (case vatRate doc of
              Num r \<Rightarrow> Some (calculateCategoryTotal sn category * (r / 100))
            | NaN \<Rightarrow> None)
      else Some 0)"

definition categoryTotalWithVat :: "(string \<Rightarrow> jsnum) \<Rightarrow> DocumentState \<Rightarrow> CostCategory \<Rightarrow> real option" where
  "categoryTotalWithVat sn doc category =
     map_option (\<lambda>v. calculateCategoryTotal sn category + v) (categoryVat sn doc category)"

text \<open>
  Every monetary figure the preview shows for one category: per item the total, the
  markup and the VAT cell, then the three figures of the category block.
\<close>

definition categoryFigures ::
  "(string \<Rightarrow> jsnum) \<Rightarrow> DocumentState \<Rightarrow> CostCategory
     \<Rightarrow> (real \<times> real option \<times> real option) list \<times> real \<times> real option \<times> real option" where
  "categoryFigures sn doc category =
     (map (\<lambda>item. (itemSubtotal sn item, itemMarkup sn category item,
                    vatOnItem sn doc category item))
        (allItems category),
      calculateCategoryTotal sn category,
      categoryVat sn doc category,
      categoryTotalWithVat sn doc category)"

text \<open>
  Two documents that are the same except for the \<open>markupDistribution\<close> field of
  their categories.
\<close>

definition sameExceptDistribution :: "DocumentState \<Rightarrow> DocumentState \<Rightarrow> bool" where
  "sameExceptDistribution doc doc' \<longleftrightarrow>
     doc' = doc\<lparr>categories := categories doc'\<rparr> \<and>
     list_all2 (\<lambda>c c'. c' = c\<lparr>markupDistribution := markupDistribution c'\<rparr>)
       (categories doc) (categories doc')"

subsection \<open>The markup cell in the arithmetic of doubles\<close>





section \<open>Payment plan calculator\<close>

text \<open>
  The calculator compares the balance and the monthly rate with 0, so its numbers are
  doubles.
\<close>

datatype PaymentPeriod = Monthly | Weekly | Yearly | CustomDays

record PaymentPlanConfig =
  enabled :: bool
  downPayment :: double
  paymentPeriod :: PaymentPeriod
  customPeriodDays :: double
  terms :: "double list"
  baseInterestRate :: double
  riskFactor :: double
  termIncrementRate :: double
  customTerms :: string

record PaymentOption =
  termN :: double
  monthlyPayment :: double
  totalPayment :: double

text \<open>
  \<open>annualInterestRate\<close>, that is
  \<open>baseInterestRate + riskFactor + (term * termIncrementRate / 12)\<close>, and
  \<open>monthlyRate\<close>, that is \<open>(annualInterestRate / 100) / 12\<close>, of one term.
\<close>

definition annualInterestRate :: "PaymentPlanConfig \<Rightarrow> double \<Rightarrow> double" where
  "annualInterestRate config t =
     dadd (dadd (baseInterestRate config) (riskFactor config))
          (ddiv (dmul t (termIncrementRate config)) (Finite 12))"

definition monthlyRate :: "PaymentPlanConfig \<Rightarrow> double \<Rightarrow> double" where
  "monthlyRate config t = ddiv (ddiv (annualInterestRate config t) (Finite 100)) (Finite 12)"

text \<open>
  The callback of \<open>config.terms.map\<close>: \<open>None\<close> is the \<open>null\<close> returned for a term
  of 0. \<open>Math.pow\<close> is the language's library function, a parameter \<open>pow\<close> here.
\<close>

definition paymentOption ::
  "(double \<Rightarrow> double \<Rightarrow> double) \<Rightarrow> double \<Rightarrow> PaymentPlanConfig \<Rightarrow> double
     \<Rightarrow> PaymentOption option" where
  "paymentOption pow balance config t =
     (if deq t (Finite 0) then None
      else if deq (monthlyRate config t) (Finite 0)
      then Some \<lparr>termN = t, monthlyPayment = ddiv balance t, totalPayment = balance\<rparr>
      else
        (let monthlyPayment =
               ddiv (dmul balance
                       (dmul (monthlyRate config t)
                          (pow (dadd (Finite 1) (monthlyRate config t)) t)))
                    (dsub (pow (dadd (Finite 1) (monthlyRate config t)) t) (Finite 1))
         in Some \<lparr>termN = t, monthlyPayment = monthlyPayment,
                  totalPayment = dmul monthlyPayment t\<rparr>))"

text \<open>\<open>calculatePaymentOptions(total, config)\<close>; the argument \<open>total\<close> is \<open>totalAmount\<close> here.\<close>

definition calculatePaymentOptions ::
  "(double \<Rightarrow> double \<Rightarrow> double) \<Rightarrow> double \<Rightarrow> PaymentPlanConfig \<Rightarrow> PaymentOption list" where
  "calculatePaymentOptions pow totalAmount config =
     (if \<not> enabled config \<or> length (terms config) = 0 then []
      else
        (let balance = dsub totalAmount (downPayment config) in
         if dle balance (Finite 0) then []
         else List.map_filter (paymentOption pow balance config) (terms config)))"

text \<open>
  The plan of the specification's example, with the given terms, and a plan whose base
  rate 0.1 and term increment -0.1 cancel for a term of 12 in exact arithmetic only.
\<close>

definition samplePlan :: "double list \<Rightarrow> PaymentPlanConfig" where
  "samplePlan ts =
     \<lparr>enabled = True, downPayment = Finite 1000, paymentPeriod = Monthly,
      customPeriodDays = Finite 0, terms = ts, baseInterestRate = Finite 0,
      riskFactor = Finite 0, termIncrementRate = Finite 0, customTerms = []\<rparr>"

definition cancellingPlan :: PaymentPlanConfig where
  "cancellingPlan =
     (samplePlan [Finite 12])
       \<lparr>baseInterestRate := fl (1 / 10), termIncrementRate := fl (- 1 / 10)\<rparr>"

section \<open>PDF export: the page cursor\<close>

text \<open>
  \<open>handleExportToPdf\<close> keeps two variables, the vertical write position \<open>y\<close> and
  the page counter \<open>page\<close>, and calls the drawing library. The state of the model is
  the two variables (\<open>y\<close> is the field \<open>cursor\<close>) and the log of what was drawn, each
  entry with the position it was drawn at. Lengths are millimetres.
\<close>

datatype DrawOp =
    Footer nat
  | AddPage
  | Header
  | CategoryTitle real
  | SubcategoryTitle real
  | ColumnHeader real
  | ItemRow real real

record PdfState =
  cursor :: real
  page :: nat
  drawn :: "DrawOp list"

definition A4_HEIGHT :: real where "A4_HEIGHT = 297"
definition MARGIN :: real where "MARGIN = 5"
definition FOOTER_HEIGHT :: real where "FOOTER_HEIGHT = 15"
definition HEADER_HEIGHT :: real where "HEADER_HEIGHT = 30"
definition DRAW_HEIGHT :: real where "DRAW_HEIGHT = A4_HEIGHT - (MARGIN * 2) - FOOTER_HEIGHT"
definition tableHeaderHeight :: real where "tableHeaderHeight = 7"
definition tableRowVerticalPadding :: real where "tableRowVerticalPadding = 4"
definition cellLineHeight :: real where "cellLineHeight = 3.5"

text \<open>
  \<open>drawHeader\<close> starts at \<open>y = MARGIN\<close> and leaves \<open>y = MARGIN + HEADER_HEIGHT\<close>,
  the top of the content. \<open>drawFooter\<close> prints the current page number and does not
  move \<open>y\<close>.
\<close>

definition drawHeader :: "PdfState \<Rightarrow> PdfState" where
  "drawHeader s = s\<lparr>cursor := MARGIN + HEADER_HEIGHT, drawn := drawn s @ [Header]\<rparr>"

definition drawFooter :: "PdfState \<Rightarrow> PdfState" where
  "drawFooter s = s\<lparr>drawn := drawn s @ [Footer (page s)]\<rparr>"

definition addPage :: "PdfState \<Rightarrow> PdfState" where
  "addPage s = s\<lparr>drawn := drawn s @ [AddPage]\<rparr>"

definition checkAndAddPage :: "real \<Rightarrow> PdfState \<Rightarrow> PdfState" where
  "checkAndAddPage heightNeeded s =
     (if cursor s + heightNeeded > MARGIN + DRAW_HEIGHT
      then drawHeader ((addPage (drawFooter s))\<lparr>page := page s + 1\<rparr>)
      else s)"

definition drawCategoryTitle :: "PdfState \<Rightarrow> PdfState" where
  "drawCategoryTitle s =
     s\<lparr>cursor := cursor s + 10, drawn := drawn s @ [CategoryTitle (cursor s)]\<rparr>"

definition drawSubcategoryTitle :: "PdfState \<Rightarrow> PdfState" where
  "drawSubcategoryTitle s =
     s\<lparr>cursor := cursor s + 5, drawn := drawn s @ [SubcategoryTitle (cursor s)]\<rparr>"

definition drawColumnHeader :: "PdfState \<Rightarrow> PdfState" where
  "drawColumnHeader s =
     s\<lparr>cursor := cursor s + tableHeaderHeight, drawn := drawn s @ [ColumnHeader (cursor s)]\<rparr>"

text \<open>
  The height of an item row. \<open>lineCounts\<close> holds, for each visible column of the row,
  the number of lines the library wraps the cell's text into; \<open>maxLines\<close> starts at 1.
\<close>

definition rowHeight :: "nat list \<Rightarrow> real" where
  "rowHeight lineCounts =
     (let maxLines = foldl (\<lambda>maxLines n. if n > maxLines then n else maxLines) 1 lineCounts
      in real maxLines * cellLineHeight + tableRowVerticalPadding)"

text \<open>
  The body of the loop over \<open>sub.items\<close>: the page break written out in the loop (it
  also repeats the category title, the subcategory title and the column header), then
  the row at \<open>y\<close>, then \<open>y += rowHeight\<close>.
\<close>

definition drawItemRow :: "bool \<Rightarrow> nat list \<Rightarrow> PdfState \<Rightarrow> PdfState" where
  "drawItemRow hasSubcategoryTitle lineCounts s =
     (let h = rowHeight lineCounts;
          s1 = (if cursor s + h > MARGIN + DRAW_HEIGHT
                then
                  (let s2 = drawCategoryTitle
                              (drawHeader ((addPage (drawFooter s))\<lparr>page := page s + 1\<rparr>));
                       s3 = (if hasSubcategoryTitle then drawSubcategoryTitle s2 else s2)
                   in drawColumnHeader s3)
                else s)
      in s1\<lparr>cursor := cursor s1 + h, drawn := drawn s1 @ [ItemRow (cursor s1) h]\<rparr>)"

definition drawItems :: "bool \<Rightarrow> nat list list \<Rightarrow> PdfState \<Rightarrow> PdfState" where
  "drawItems hasSubcategoryTitle rows s = foldl (\<lambda>s r. drawItemRow hasSubcategoryTitle r s) s rows"

text \<open>The bottom of the content: no row should reach below it.\<close>

definition bottomBoundary :: real where
  "bottomBoundary = A4_HEIGHT - MARGIN - FOOTER_HEIGHT"

fun rowWithinBoundary :: "DrawOp \<Rightarrow> bool" where
  "rowWithinBoundary (ItemRow y h) = (y + h \<le> bottomBoundary)"
| "rowWithinBoundary _ = True"

section \<open>Roman page numbers\<close>

text \<open>
  \<open>romanize\<close> of the exporter, called with the page counter, a positive integer: the
  model takes a natural number, for which the \<open>isNaN\<close> guard never fires.
  \<open>digits\<close> is the list of the decimal digits of \<open>num\<close>, most significant first
  (\<open>String(+num).split("")\<close>); the digit characters are modelled by their values,
  which is what \<open>+digits.pop()\<close> reads.
\<close>

definition key_table :: "string list" where
  "key_table =
     ['''', ''C'', ''CC'', ''CCC'', ''CD'', ''D'', ''DC'', ''DCC'', ''DCCC'', ''CM'',
      '''', ''X'', ''XX'', ''XXX'', ''XL'', ''L'', ''LX'', ''LXX'', ''LXXX'', ''XC'',
      '''', ''I'', ''II'', ''III'', ''IV'', ''V'', ''VI'', ''VII'', ''VIII'', ''IX'']"

fun decimalDigits :: "nat \<Rightarrow> nat list" where
  "decimalDigits n = (if n < 10 then [n] else decimalDigits (n div 10) @ [n mod 10])"

declare decimalDigits.simps [simp del]

text \<open>
  \<open>digits.pop()\<close>: the last element and the rest; \<open>undefined\<close> (here \<open>None\<close>) on
  the empty array.
\<close>

definition pop :: "'a list \<Rightarrow> 'a option \<times> 'a list" where
  "pop xs = (if xs = [] then (None, []) else (Some (last xs), butlast xs))"

text \<open>
  \<open>key[+digits.pop() + (i * 10)] || ""\<close>: an \<open>undefined\<close> digit makes the index NaN,
  and an index outside the table reads \<open>undefined\<close>; both give the empty string.
\<close>

definition keyAt :: "nat option \<Rightarrow> nat \<Rightarrow> string" where
  "keyAt d i =
     (case d of
        None \<Rightarrow> []
      | Some d \<Rightarrow> if d + i * 10 < length key_table then key_table ! (d + i * 10) else [])"

text \<open>
  \<open>while (i--) roman = ... + roman\<close>: with \<open>i\<close> tested and then decremented, the
  body runs with \<open>i - 1\<close>; the first argument is the value of \<open>i\<close> at the test.
\<close>

fun romanLoop :: "nat \<Rightarrow> nat list \<Rightarrow> string \<Rightarrow> nat list \<times> string" where
  "romanLoop 0 digits roman = (digits, roman)"
| "romanLoop (Suc i) digits roman =
     (let (d, digits') = pop digits in romanLoop i digits' (keyAt d i @ roman))"

text \<open>\<open>+digits.join("")\<close>: the number the remaining digits spell, 0 for none.\<close>

definition joinDigits :: "nat list \<Rightarrow> nat" where
  "joinDigits digits = foldl (\<lambda>a d. 10 * a + d) 0 digits"

text \<open>\<open>toLowerCase\<close> on the ASCII letters; other characters are left as they are.\<close>

definition lowerChar :: "char \<Rightarrow> char" where
  "lowerChar c =
     (case map_of (zip ''ABCDEFGHIJKLMNOPQRSTUVWXYZ'' ''abcdefghijklmnopqrstuvwxyz'') c of
        Some l \<Rightarrow> l
      | None \<Rightarrow> c)"

definition toLowerCase :: "string \<Rightarrow> string" where
  "toLowerCase s = map lowerChar s"

text \<open>\<open>Array(k + 1).join("M")\<close> is \<open>k\<close> copies of \<open>M\<close>.\<close>

definition romanize :: "nat \<Rightarrow> string" where
  "romanize num =
     (let (digits, roman) = romanLoop 3 (decimalDigits num) []
      in toLowerCase (replicate (joinDigits digits) (CHR ''M'') @ roman))"

subsection \<open>Roman numerals\<close>

text \<open>
  The reference: the numeral of \<open>n\<close> takes each value of the table, from the largest,
  as often as it fits, and goes on with the remainder.
\<close>

fun toRoman :: "(nat \<times> string) list \<Rightarrow> nat \<Rightarrow> string" where
  "toRoman [] n = []"
| "toRoman ((v, s) # table) n = concat (replicate (n div v) s) @ toRoman table (n mod v)"

definition romanTable :: "(nat \<times> string) list" where
  "romanTable =
     [(1000, ''m''), (900, ''cm''), (500, ''d''), (400, ''cd''), (100, ''c''), (90, ''xc''),
      (50, ''l''), (40, ''xl''), (10, ''x''), (9, ''ix''), (5, ''v''), (4, ''iv''), (1, ''i'')]"

text \<open>The numeral of one decimal digit, from the letters for its 9, 5, 4 and 1.\<close>

definition digitNumeral :: "string \<Rightarrow> string \<Rightarrow> string \<Rightarrow> string \<Rightarrow> nat \<Rightarrow> string" where
  "digitNumeral s9 s5 s4 s1 b =
     [[], s1, s1 @ s1, s1 @ s1 @ s1, s4, s5, s5 @ s1, s5 @ s1 @ s1, s5 @ s1 @ s1 @ s1, s9] ! b"

section \<open>Column registry\<close>

datatype DataType = StringData | NumberData | DateData | TimeData | BooleanData | ImageData

datatype InputType =
  TextInput | TextareaInput | NumberInput | SelectInput | DateInput | TimeInput
  | CheckboxInput | FileInput

text \<open>
  \<open>ColumnDefinition\<close>; the field \<open>default\<close> is \<open>defaultVisible\<close> here, and the
  optional \<open>options\<close> is \<open>None\<close> when absent.
\<close>

record ColumnDefinition =
  label :: string
  defaultVisible :: bool
  isEditable :: bool
  dataType :: DataType
  inputType :: InputType
  options :: "string list option"

type_synonym ColumnDefinitions = "string \<rightharpoonup> ColumnDefinition"

fun COMPATIBLE_INPUT_TYPES :: "DataType \<Rightarrow> InputType list" where
  "COMPATIBLE_INPUT_TYPES StringData = [TextInput, TextareaInput, SelectInput]"
| "COMPATIBLE_INPUT_TYPES NumberData = [NumberInput, SelectInput]"
| "COMPATIBLE_INPUT_TYPES DateData = [DateInput]"
| "COMPATIBLE_INPUT_TYPES TimeData = [TimeInput]"
| "COMPATIBLE_INPUT_TYPES BooleanData = [CheckboxInput]"
| "COMPATIBLE_INPUT_TYPES ImageData = [FileInput]"

text \<open>
  The pair \<open>(field, value)\<close> of \<open>handleColumnDefinitionChange\<close>, one constructor
  for each field of a definition.
\<close>

datatype FieldChange =
    SetLabel string
  | SetDefault bool
  | SetIsEditable bool
  | SetDataType DataType
  | SetInputType InputType
  | SetOptions "string list option"

text \<open>\<open>{ ...oldDef, [field]: value }\<close>\<close>

fun withField :: "ColumnDefinition \<Rightarrow> FieldChange \<Rightarrow> ColumnDefinition" where
  "withField oldDef (SetLabel v) = oldDef\<lparr>label := v\<rparr>"
| "withField oldDef (SetDefault v) = oldDef\<lparr>defaultVisible := v\<rparr>"
| "withField oldDef (SetIsEditable v) = oldDef\<lparr>isEditable := v\<rparr>"
| "withField oldDef (SetDataType v) = oldDef\<lparr>dataType := v\<rparr>"
| "withField oldDef (SetInputType v) = oldDef\<lparr>inputType := v\<rparr>"
| "withField oldDef (SetOptions v) = oldDef\<lparr>options := v\<rparr>"

text \<open>
  The updater passed to \<open>setColumnDefinitions\<close>. For a key with no definition the
  program has no well-formed result (it throws on \<open>oldDef.inputType\<close>, or stores an
  object that has the changed field only): \<open>None\<close>.
\<close>

definition handleColumnDefinitionChange ::
  "ColumnDefinitions \<Rightarrow> string \<Rightarrow> FieldChange \<Rightarrow> ColumnDefinitions option" where
  "handleColumnDefinitionChange prev k change =
     (case prev k of
        None \<Rightarrow> None
      | Some oldDef \<Rightarrow>
          (let newDef = withField oldDef change
           in case change of
                SetDataType newDataType \<Rightarrow>
                  (let compatibleInputs = COMPATIBLE_INPUT_TYPES newDataType
                   in if inputType oldDef \<notin> set compatibleInputs
                      then Some (prev(k \<mapsto> newDef\<lparr>inputType := compatibleInputs ! 0\<rparr>))
                      else Some (prev(k \<mapsto> newDef)))
              | _ \<Rightarrow> Some (prev(k \<mapsto> newDef))))"

subsection \<open>Adding a column\<close>

text \<open>
  Strings are lists of code units; the model covers the code units below 256. Of those
  \<open>trim\<close> removes the following at both ends.
\<close>

definition isWhiteSpace :: "char \<Rightarrow> bool" where
  "isWhiteSpace c \<longleftrightarrow>
     c \<in> set [CHR 0x09, CHR 0x0A, CHR 0x0B, CHR 0x0C, CHR 0x0D, CHR 0x20, CHR 0xA0]"

definition trim :: "string \<Rightarrow> string" where
  "trim s = rev (dropWhile isWhiteSpace (rev (dropWhile isWhiteSpace s)))"

text \<open>
  \<open>replace(/[^a-z0-9]/gi, '_')\<close>: every code unit that is not an ASCII letter or
  digit becomes an underscore. A non-ASCII letter is replaced whether or not
  \<open>toLowerCase\<close> changed it before, so \<open>toLowerCase\<close> matters on the ASCII letters
  only.
\<close>

definition isAlphanumeric :: "char \<Rightarrow> bool" where
  "isAlphanumeric c \<longleftrightarrow>
     c \<in> set ''abcdefghijklmnopqrstuvwxyzABCDEFGHIJKLMNOPQRSTUVWXYZ0123456789''"

definition replaceNonAlphanumeric :: "string \<Rightarrow> string" where
  "replaceNonAlphanumeric s = map (\<lambda>c. if isAlphanumeric c then c else CHR ''_'') s"

text \<open>\<open>newKey\<close> of \<open>handleAddColumn\<close>.\<close>

definition newColumnKey :: "string \<Rightarrow> string" where
  "newColumnKey newLabel = replaceNonAlphanumeric (toLowerCase (trim newLabel))"

text \<open>
  \<open>columnDefinitions[newKey]\<close> as a condition. The registry is a plain object: besides
  its own keys, whose values are objects and so truthy, the lookup finds the properties
  every object inherits from \<open>Object.prototype\<close>, all truthy.
\<close>

definition objectPrototypeKeys :: "string list" where
  "objectPrototypeKeys =
     [''constructor'', ''__proto__'', ''hasOwnProperty'', ''isPrototypeOf'',
      ''propertyIsEnumerable'', ''toLocaleString'', ''toString'', ''valueOf'',
      ''__defineGetter__'', ''__defineSetter__'', ''__lookupGetter__'', ''__lookupSetter__'']"

definition truthyProperty :: "ColumnDefinitions \<Rightarrow> string \<Rightarrow> bool" where
  "truthyProperty columnDefinitions k \<longleftrightarrow>
     columnDefinitions k \<noteq> None \<or> k \<in> set objectPrototypeKeys"

datatype AddColumnAlert = EmptyLabel | SimilarColumnExists

text \<open>
  \<open>handleAddColumn\<close> with the form's \<open>newColumnData\<close> as arguments. The result is
  the alert shown, if any, and the registry afterwards; a rejected creation returns
  before \<open>setColumnDefinitions\<close>.
\<close>

definition handleAddColumn ::
  "ColumnDefinitions \<Rightarrow> string \<Rightarrow> DataType \<Rightarrow> AddColumnAlert option \<times> ColumnDefinitions" where
  "handleAddColumn columnDefinitions newLabel newDataType =
     (if trim newLabel = [] then (Some EmptyLabel, columnDefinitions)
      else
        (let newKey = newColumnKey newLabel in
         if truthyProperty columnDefinitions newKey
         then (Some SimilarColumnExists, columnDefinitions)
         else
           (let compatibleInputs = COMPATIBLE_INPUT_TYPES newDataType
            in (None,
                columnDefinitions(newKey \<mapsto>
                  \<lparr>label = trim newLabel, defaultVisible = False, isEditable = True,
                   dataType = newDataType, inputType = compatibleInputs ! 0,
                   options = (if newDataType = StringData \<or> newDataType = NumberData
                              then Some [] else None)\<rparr>)))))"

text \<open>
  The key as the specification words it: the label lowercased, every non-alphanumeric
  character replaced by an underscore.
\<close>

definition specColumnKey :: "string \<Rightarrow> string" where
  "specColumnKey newLabel = replaceNonAlphanumeric (toLowerCase newLabel)"

subsection \<open>New items\<close>

text \<open>
  The value a new item gets for one column: the chain of conditions of the loop over
  \<open>Object.entries(columnDefinitions)\<close>, the same in \<open>handleAddItems\<close> and in
  \<open>handleAddItemsFromImage\<close>. \<open>def.options?.[0] || ''\<close> is the first option, or the
  empty string when there is none.
\<close>

definition initialValue :: "string \<Rightarrow> ColumnDefinition \<Rightarrow> jsval" where
  "initialValue k def =
     (if k = ''quantity'' then JNumber (Num 1)
      else if dataType def = NumberData then JNumber (Num 0)
      else if dataType def = BooleanData then JBool False
      else if inputType def = SelectInput
      then JString (case options def of Some (opt # rest) \<Rightarrow> opt | _ \<Rightarrow> [])
      else JString [])"

text \<open>
  \<open>newItem\<close>: the object \<open>{ id: crypto.randomUUID() }\<close>, then one property for each
  key of the registry (a column with the key \<open>id\<close> overwrites the identifier).
\<close>

definition newItem :: "string \<Rightarrow> ColumnDefinitions \<Rightarrow> Item" where
  "newItem uuid columnDefinitions =
     (\<lambda>k. case columnDefinitions k of
            Some def \<Rightarrow> Some (initialValue k def)
          | None \<Rightarrow> if k = ''id'' then Some (JString uuid) else None)"

text \<open>
  \<open>handleAddItems\<close> on the subcategory it finds: \<open>count\<close> new items, one for each of
  the fresh identifiers, appended to the subcategory's items.
\<close>

definition handleAddItems :: "ColumnDefinitions \<Rightarrow> string list \<Rightarrow> Subcategory \<Rightarrow> Subcategory" where
  "handleAddItems columnDefinitions uuids subcategory =
     (let itemsToAdd = map (\<lambda>uuid. newItem uuid columnDefinitions) uuids
      in subcategory\<lparr>items := items subcategory @ itemsToAdd\<rparr>)"

text \<open>Some of the initial column definitions.\<close>

definition sampleColumns :: ColumnDefinitions where
  "sampleColumns =
     [''description'' \<mapsto> \<lparr>label = ''Descripcion'', defaultVisible = True, isEditable = True,
                          dataType = StringData, inputType = TextareaInput, options = None\<rparr>,
      ''unit'' \<mapsto> \<lparr>label = ''Unidad'', defaultVisible = False, isEditable = True,
                   dataType = StringData, inputType = SelectInput,
                   options = Some [''Pza'', ''Kg'', ''m'']\<rparr>,
      ''quantity'' \<mapsto> \<lparr>label = ''Cantidad'', defaultVisible = True, isEditable = True,
                       dataType = NumberData, inputType = NumberInput, options = None\<rparr>,
      ''unitPrice'' \<mapsto> \<lparr>label = ''Precio Unit.'', defaultVisible = True, isEditable = True,
                        dataType = NumberData, inputType = NumberInput, options = None\<rparr>]"

section \<open>Folio numbers\<close>

text \<open>
  \<open>generateFolio\<close> reads two things of its \<open>Date\<close> argument, \<open>getUTCFullYear()\<close>
  and \<open>getTime()\<close>. A date is modelled by its UTC calendar fields, as the callers
  build it with \<open>Date.UTC(year, month - 1, day)\<close>: the year, the month from 0, the day
  of the month from 1, and the milliseconds since the UTC midnight of that day. The
  arithmetic of time values is the language's (ECMAScript, Date objects).
\<close>

record Date =
  utcFullYear :: int
  utcMonth :: nat
  utcDate :: nat
  utcMsInDay :: int

definition msPerDay :: int where
  "msPerDay = 1000 * 60 * 60 * 24"

definition DayFromYear :: "int \<Rightarrow> int" where
  "DayFromYear y =
     365 * (y - 1970) + (y - 1969) div 4 - (y - 1901) div 100 + (y - 1601) div 400"

definition InLeapYear :: "int \<Rightarrow> bool" where
  "InLeapYear y \<longleftrightarrow> (y mod 4 = 0 \<and> y mod 100 \<noteq> 0) \<or> y mod 400 = 0"

text \<open>The number of days of the year before the month \<open>m\<close>.\<close>

definition daysBeforeMonth :: "int \<Rightarrow> nat \<Rightarrow> int" where
  "daysBeforeMonth y m =
     [0, 31, 59, 90, 120, 151, 181, 212, 243, 273, 304, 334] ! m
       + (if InLeapYear y \<and> 2 \<le> m then 1 else 0)"

text \<open>A date the calendar has.\<close>

definition validDate :: "Date \<Rightarrow> bool" where
  "validDate date \<longleftrightarrow>
     utcMonth date < 12 \<and> 1 \<le> utcDate date
     \<and> int (utcDate date) \<le> daysBeforeMonth (utcFullYear date) (Suc (utcMonth date))
                              - daysBeforeMonth (utcFullYear date) (utcMonth date)
                              + (if utcMonth date = 11 then 365 else 0)
     \<and> 0 \<le> utcMsInDay date \<and> utcMsInDay date < msPerDay"

text \<open>The day of the year in UTC, from 1.\<close>

definition utcDayOfYear :: "Date \<Rightarrow> int" where
  "utcDayOfYear date = daysBeforeMonth (utcFullYear date) (utcMonth date) + int (utcDate date)"

text \<open>\<open>date.getTime()\<close>: milliseconds since 1970-01-01T00:00Z.\<close>

definition getTime :: "Date \<Rightarrow> int" where
  "getTime date =
     (DayFromYear (utcFullYear date) + (utcDayOfYear date - 1)) * msPerDay + utcMsInDay date"

text \<open>
  \<open>new Date(year, 0, 0).getTime()\<close>. The constructor takes its arguments in the
  host's local time: day 0 of January is the last day of the year before, and the
  instant is the local midnight that begins it. \<open>tza\<close> is the offset of the local time
  zone from UTC at that midnight, in milliseconds (local time = UTC + \<open>tza\<close>; for
  UTC-06:00 it is \<open>-21600000\<close>). A year from 0 to 99 means 1900 + year.
\<close>

definition localDayZeroOfYear :: "int \<Rightarrow> int \<Rightarrow> int" where
  "localDayZeroOfYear tza y =
     (let fullYear = (if 0 \<le> y \<and> y \<le> 99 then 1900 + y else y)
      in (DayFromYear fullYear - 1) * msPerDay - tza)"

text \<open>\<open>String(n)\<close> of an integer, \<open>padStart\<close> and \<open>slice(-2)\<close>.\<close>

definition showNat :: "nat \<Rightarrow> string" where
  "showNat n = map (\<lambda>d. ''0123456789'' ! d) (decimalDigits n)"

definition showInt :: "int \<Rightarrow> string" where
  "showInt i = (if i < 0 then CHR ''-'' # showNat (nat (- i)) else showNat (nat i))"

definition padStart :: "nat \<Rightarrow> char \<Rightarrow> string \<Rightarrow> string" where
  "padStart targetLength c s = replicate (targetLength - length s) c @ s"

definition sliceLast2 :: "string \<Rightarrow> string" where
  "sliceLast2 s = drop (length s - 2) s"

definition julianDayOfYear :: "int \<Rightarrow> Date \<Rightarrow> int" where
  "julianDayOfYear tza date =
     (let start = localDayZeroOfYear tza (utcFullYear date);
          diff = getTime date - start;
          oneDay = msPerDay
      in diff div oneDay)"

definition getJulianDate :: "int \<Rightarrow> Date \<Rightarrow> string" where
  "getJulianDate tza date =
     (let dayOfYear = julianDayOfYear tza date;
          year = sliceLast2 (showInt (utcFullYear date))
      in year @ padStart 3 (CHR ''0'') (showInt dayOfYear))"

text \<open>\<open>generateFolio(prefix, sequence, date)\<close> on a host with the offset \<open>tza\<close>.\<close>

definition generateFolio :: "int \<Rightarrow> string \<Rightarrow> nat \<Rightarrow> Date \<Rightarrow> string" where
  "generateFolio tza prefix sequence date =
     (let sequencePart = padStart 6 (CHR ''0'') (showNat sequence);
          julianDate = getJulianDate tza date
      in prefix @ sequencePart @ ''-'' @ julianDate)"

text \<open>\<open>new Date(Date.UTC(year, month - 1, day))\<close>, as the folio effect of the editor builds it.\<close>

definition utcMidnight :: "int \<Rightarrow> nat \<Rightarrow> nat \<Rightarrow> Date" where
  "utcMidnight year month day =
     \<lparr>utcFullYear = year, utcMonth = month - 1, utcDate = day, utcMsInDay = 0\<rparr>"

section \<open>Sample data\<close>

definition sampleItem :: "real \<Rightarrow> real \<Rightarrow> Item" where
  "sampleItem q p =
     [''id'' \<mapsto> JString ''item'', ''description'' \<mapsto> JString ''work'',
      ''quantity'' \<mapsto> JNumber (Num q), ''unitPrice'' \<mapsto> JNumber (Num p)]"

definition sampleCategory :: "MarkupType \<Rightarrow> MarkupDistribution \<Rightarrow> CostCategory" where
  "sampleCategory mt md =
     \<lparr>catId = ''c1'', catName = ''Labor'',
      subcategories =
        [\<lparr>subId = ''s1'', subName = ''General'', items = [sampleItem 1 100]\<rparr>,
         \<lparr>subId = ''s2'', subName = ''Extras'', items = [sampleItem 2 100]\<rparr>],
      showItems = True, visibleColumns = Map.empty, markupApplications = 0,
      applyVat = True, markupType = mt, markupValue = Num 30, markupDistribution = md\<rparr>"

definition sampleDocument :: "MarkupDistribution \<Rightarrow> DocumentState" where
  "sampleDocument md =
     \<lparr>docId = ''d1'', title = ''Quote'', docNumber = ''COT-000001-24001'',
      categories = [sampleCategory Percentage md], showVat = True, vatRate = Num 16,
      currency = ''MXN''\<rparr>"

text \<open>A string conversion for the samples, which hold no numeric strings.\<close>

definition noStrings :: "string \<Rightarrow> jsnum" where
  "noStrings s = NaN"




section \<open>Properties of the arithmetic of doubles\<close>

lemmas fl_eval =
  fl_def clip_def roundTo_def quantum_def signedInf_def exponentOf_def bitlen_def
  compute_floorlog roundHalfEven_def pow2_def Let_def

lemma roundHalfEven_nearest: "\<bar>x - of_int (roundHalfEven x)\<bar> \<le> 1 / 2"
  unfolding roundHalfEven_def Let_def by (auto simp: abs_if) linarith+

lemma exponentOf_bounds:
  assumes "x \<noteq> 0"
  shows "pow2 (exponentOf x) \<le> \<bar>x\<bar>" and "\<bar>x\<bar> < pow2 (exponentOf x + 1)"
proof -
  have "pow2 (exponentOf x) \<le> \<bar>x\<bar> \<and> \<bar>x\<bar> < pow2 (exponentOf x + 1)"
  proof (cases "1 \<le> \<bar>x\<bar>")
    case True
    define n where "n = \<lfloor>\<bar>x\<bar>\<rfloor>"
    have n: "0 < n" "of_int n \<le> \<bar>x\<bar>" "\<bar>x\<bar> < of_int n + 1"
      using True by (simp_all add: n_def)
    have e: "exponentOf x = bitlen n - 1"
      using True by (simp add: exponentOf_def n_def)
    have b: "1 \<le> bitlen n"
      using n(1) by (simp add: bitlen_alt_def)
    from bitlen_bounds [OF n(1)]
    have lo: "2 ^ nat (bitlen n - 1) \<le> n" and hi: "n + 1 \<le> 2 ^ nat (bitlen n)"
      by simp_all
    have "pow2 (exponentOf x) = of_int (2 ^ nat (bitlen n - 1))"
      using b by (simp add: e pow2_def)
    also have "\<dots> \<le> of_int n"
      using lo by (simp only: of_int_le_iff)
    finally have 1: "pow2 (exponentOf x) \<le> \<bar>x\<bar>"
      using n(2) by simp
    have "\<bar>x\<bar> < of_int (n + 1)"
      using n(3) by simp
    also have "\<dots> \<le> of_int (2 ^ nat (bitlen n))"
      using hi by (simp only: of_int_le_iff)
    also have "\<dots> = pow2 (exponentOf x + 1)"
      using b by (simp add: e pow2_def)
    finally show ?thesis
      using 1 by simp
  next
    case False
    define y where "y = 1 / \<bar>x\<bar>"
    define c where "c = \<lceil>y\<rceil>"
    have x: "0 < \<bar>x\<bar>" "\<bar>x\<bar> < 1"
      using assms False by simp_all
    have y: "1 < y"
      using x by (simp add: y_def)
    have c: "0 < c - 1" "y \<le> of_int c" "of_int (c - 1) < y"
      using y by (simp_all add: c_def) linarith+
    define k where "k = bitlen (c - 1)"
    have e: "exponentOf x = - k"
      using False by (simp add: exponentOf_def k_def c_def y_def)
    have k: "1 \<le> k"
      using c(1) by (simp add: k_def bitlen_alt_def)
    from bitlen_bounds [OF c(1)]
    have lo: "2 ^ nat (k - 1) \<le> c - 1" and hi: "c \<le> 2 ^ nat k"
      by (simp_all add: k_def)
    have "y \<le> of_int (2 ^ nat k)"
      using c(2) hi by (meson of_int_le_iff order_trans)
    then have "1 / \<bar>x\<bar> \<le> 2 ^ nat k"
      by (simp add: y_def)
    then have "1 / 2 ^ nat k \<le> \<bar>x\<bar>"
      using x(1) by (simp add: field_simps)
    then have 1: "pow2 (exponentOf x) \<le> \<bar>x\<bar>"
      using k by (simp add: e pow2_def)
    have "of_int (2 ^ nat (k - 1)) < y"
      using c(3) lo by (meson of_int_le_iff le_less_trans)
    then have "2 ^ nat (k - 1) < 1 / \<bar>x\<bar>"
      by (simp add: y_def)
    then have lt: "\<bar>x\<bar> < 1 / 2 ^ nat (k - 1)"
      using x(1) by (simp add: field_simps)
    have "pow2 (exponentOf x + 1) = 1 / 2 ^ nat (k - 1)"
    proof (cases "k = 1")
      case True
      then show ?thesis by (simp add: e pow2_def)
    next
      case False
      with k have "1 < k" by simp
      then have "nat (- (1 - k)) = nat (k - 1)" by simp
      with \<open>1 < k\<close> show ?thesis
        by (simp add: e pow2_def)
    qed
    with lt 1 show ?thesis
      by simp
  qed
  then show "pow2 (exponentOf x) \<le> \<bar>x\<bar>" and "\<bar>x\<bar> < pow2 (exponentOf x + 1)"
    by simp_all
qed

lemma pow2_pos: "0 < pow2 e"
  by (simp add: pow2_def)

text \<open>
  A finite result of \<open>fl\<close> is a multiple of the spacing at \<open>x\<close> and lies within half
  that spacing of \<open>x\<close>: \<open>fl\<close> rounds to a nearest double.
\<close>

lemma fl_nearest:
  assumes "fl x = Finite r"
  shows "\<bar>r - x\<bar> \<le> quantum x / 2" and "\<exists>m::int. r = of_int m * quantum x"
proof -
  have q: "0 < quantum x"
    by (simp add: quantum_def pow2_pos)
  have r: "r = roundTo (quantum x) x"
  proof (cases "x = 0")
    case True
    with assms show ?thesis
      by (simp add: fl_def roundTo_def roundHalfEven_def)
  next
    case False
    with assms show ?thesis
      by (simp add: fl_def clip_def signedInf_def split: if_splits)
  qed
  have "r - x = quantum x * (of_int (roundHalfEven (x / quantum x)) - x / quantum x)"
    using q by (simp add: r roundTo_def field_simps)
  then have "\<bar>r - x\<bar> = quantum x * \<bar>x / quantum x - of_int (roundHalfEven (x / quantum x))\<bar>"
    using q by (simp add: abs_mult abs_minus_commute)
  also have "\<dots> \<le> quantum x * (1 / 2)"
    using q roundHalfEven_nearest [of "x / quantum x"] by (simp only: mult_le_cancel_left_pos)
  finally show "\<bar>r - x\<bar> \<le> quantum x / 2"
    by simp
  show "\<exists>m::int. r = of_int m * quantum x"
    unfolding r roundTo_def by blast
qed

text \<open>The doubles of some decimal literals, and two ties.\<close>

lemma fl_examples:
  "fl (1 / 10) = Finite (3602879701896397 / 36028797018963968)"
  "fl (11 / 10) = Finite (2476979795053773 / 2251799813685248)"
  "fl 30 = Finite 30"
  "fl (2 ^ 53 + 1) = Finite (2 ^ 53)"
  "fl (2 ^ 53 + 3) = Finite (2 ^ 53 + 4)"
  by (simp_all add: fl_eval)

section \<open>Properties of the pricing engine\<close>

lemma foldl_add_sum_list:
  "foldl (\<lambda>acc x. acc + f x) (a::real) xs = a + sum_list (map f xs)"
  by (induction xs arbitrary: a) simp_all

lemma rawSubtotal_nested:
  "foldl (\<lambda>acc sub. foldl (\<lambda>acc item. acc + f item) acc (items sub)) (a::real) subs
     = a + sum_list (map f (concat (map items subs)))"
  by (induction subs arbitrary: a) (simp_all add: foldl_add_sum_list)

lemma categoryRawSubtotal_spec:
  "categoryRawSubtotal sn category = specRawSubtotal sn category"
  unfolding categoryRawSubtotal_def specRawSubtotal_def allItems_def itemSubtotal_def
  by (simp add: rawSubtotal_nested)

lemma categoryTotalWithMarkups_spec:
  "categoryTotalWithMarkups sn category = specCategoryTotal sn category"
  unfolding categoryTotalWithMarkups_def specCategoryTotal_def Let_def categoryRawSubtotal_spec
  by (cases "markupType category") (simp_all add: algebra_simps)

lemma totalsStep_spec:
  "totalsStep sn doc acc c =
     (fst acc + specCategoryTotal sn c, snd acc + specCategoryVat sn doc c)"
  by (simp add: totalsStep_def Let_def categoryTotalWithMarkups_spec specCategoryVat_def)

lemma totals_fold:
  "foldl (totalsStep sn doc) acc cs =
     (fst acc + sum_list (map (specCategoryTotal sn) cs),
      snd acc + sum_list (map (specCategoryVat sn doc) cs))"
proof (induction cs arbitrary: acc)
  case Nil
  show ?case by simp
next
  case (Cons c cs)
  show ?case
    unfolding foldl_Cons Cons.IH
    by (simp add: totalsStep_spec)
qed

text \<open>
  C1. For every document, \<open>calculateTotals\<close> returns the subtotal that is the sum over
  the categories of the category total with markup (the raw subtotal, the sum over all
  items of quantity times unit price with non-numeric values read as 0, unchanged for no
  markup, multiplied by 1 + markupValue/100 for a percentage markup, increased by
  markupValue for a fixed one), the tax that is the sum over the categories of the
  category VAT (total with markup times vatRate/100 when both the document's
  \<open>showVat\<close> and the category's \<open>applyVat\<close> hold, else 0), and the total that is
  subtotal plus tax. \<open>markupValue\<close> and \<open>vatRate\<close> stand for the number the code reads,
  \<open>markupValue || 0\<close> and \<open>vatRate || 0\<close>.
\<close>

theorem calculateTotals_reconciles:
  "subtotal (calculateTotals sn doc) = (\<Sum>c \<leftarrow> categories doc. specCategoryTotal sn c)
   \<and> tax (calculateTotals sn doc) = (\<Sum>c \<leftarrow> categories doc. specCategoryVat sn doc c)
   \<and> total (calculateTotals sn doc)
       = subtotal (calculateTotals sn doc) + tax (calculateTotals sn doc)"
  by (simp add: calculateTotals_def Let_def totals_fold)

subsection \<open>Fixed markup attributed to the items\<close>






subsection \<open>The distribution flag\<close>

lemma allItems_distribution [simp]:
  "allItems (c\<lparr>markupDistribution := d\<rparr>) = allItems c"
  by (simp add: allItems_def)

lemma previewRawSubtotal_distribution [simp]:
  "previewRawSubtotal sn (c\<lparr>markupDistribution := d\<rparr>) = previewRawSubtotal sn c"
  by (simp add: previewRawSubtotal_def)

lemma calculateCategoryTotal_distribution [simp]:
  "calculateCategoryTotal sn (c\<lparr>markupDistribution := d\<rparr>) = calculateCategoryTotal sn c"
  by (simp add: calculateCategoryTotal_def Let_def)

lemma itemMarkup_distribution [simp]:
  "itemMarkup sn (c\<lparr>markupDistribution := d\<rparr>) item = itemMarkup sn c item"
  by (simp add: itemMarkup_def Let_def)

lemma vatOnItem_distribution:
  assumes "showVat doc' = showVat doc" and "vatRate doc' = vatRate doc"
  shows "vatOnItem sn doc' (c\<lparr>markupDistribution := d\<rparr>) item = vatOnItem sn doc c item"
  unfolding vatOnItem_def assms by simp

lemma categoryVat_distribution:
  assumes "showVat doc' = showVat doc" and "vatRate doc' = vatRate doc"
  shows "categoryVat sn doc' (c\<lparr>markupDistribution := d\<rparr>) = categoryVat sn doc c"
  unfolding categoryVat_def assms by (simp split: jsnum.split)

lemma categoryFigures_distribution:
  assumes "showVat doc' = showVat doc" and "vatRate doc' = vatRate doc"
  shows "categoryFigures sn doc' (c\<lparr>markupDistribution := d\<rparr>) = categoryFigures sn doc c"
  unfolding categoryFigures_def categoryTotalWithVat_def
    vatOnItem_distribution [OF assms] categoryVat_distribution [OF assms]
  by simp

lemma totalsStep_distribution:
  assumes "showVat doc' = showVat doc" and "vatRate doc' = vatRate doc"
  shows "totalsStep sn doc' acc (c\<lparr>markupDistribution := d\<rparr>) = totalsStep sn doc acc c"
  unfolding totalsStep_def assms
  by (simp add: categoryTotalWithMarkups_def categoryRawSubtotal_def Let_def)

lemma totals_fold_distribution:
  assumes "showVat doc' = showVat doc" and "vatRate doc' = vatRate doc"
    and "list_all2 (\<lambda>c c'. c' = c\<lparr>markupDistribution := markupDistribution c'\<rparr>) cs cs'"
  shows "foldl (totalsStep sn doc') acc cs' = foldl (totalsStep sn doc) acc cs"
  using assms(3)
proof (induction arbitrary: acc rule: list_all2_induct)
  case Nil
  show ?case by simp
next
  case (Cons c cs c' cs')
  have "totalsStep sn doc' acc c' = totalsStep sn doc acc c"
    using totalsStep_distribution [OF assms(1,2), where c = c and d = "markupDistribution c'"]
      Cons.hyps(1)
    by simp
  then show ?case
    by (simp add: Cons.IH)
qed

lemma figures_map_distribution:
  assumes "showVat doc' = showVat doc" and "vatRate doc' = vatRate doc"
    and "list_all2 (\<lambda>c c'. c' = c\<lparr>markupDistribution := markupDistribution c'\<rparr>) cs cs'"
  shows "map (categoryFigures sn doc') cs' = map (categoryFigures sn doc) cs"
  using assms(3)
proof (induction rule: list_all2_induct)
  case Nil
  show ?case by simp
next
  case (Cons c cs c' cs')
  have "categoryFigures sn doc' c' = categoryFigures sn doc c"
    using categoryFigures_distribution [OF assms(1,2), where c = c and d = "markupDistribution c'"]
      Cons.hyps(1)
    by simp
  then show ?case
    by (simp add: Cons.IH)
qed

text \<open>
  C3. For two documents that are identical except for the \<open>markupDistribution\<close> field
  of one or more categories, \<open>calculateTotals\<close> returns equal totals, and every
  per-item markup, VAT and total figure computed for display, with the figures of the
  category block, is the same in both: the flag influences no computed monetary figure.
\<close>

theorem markupDistribution_no_influence:
  assumes "sameExceptDistribution doc doc'"
  shows "calculateTotals sn doc' = calculateTotals sn doc
       \<and> map (categoryFigures sn doc') (categories doc')
           = map (categoryFigures sn doc) (categories doc)"
proof -
  from assms have eq: "doc' = doc\<lparr>categories := categories doc'\<rparr>"
    and rel: "list_all2 (\<lambda>c c'. c' = c\<lparr>markupDistribution := markupDistribution c'\<rparr>)
                (categories doc) (categories doc')"
    by (simp_all add: sameExceptDistribution_def)
  have sv: "showVat doc' = showVat doc"
    using arg_cong [OF eq, of showVat] by simp
  have vr: "vatRate doc' = vatRate doc"
    using arg_cong [OF eq, of vatRate] by simp
  show ?thesis
    by (simp add: calculateTotals_def totals_fold_distribution [OF sv vr rel]
        figures_map_distribution [OF sv vr rel])
qed

theorem markupDistribution_no_influence_witness:
  "sameExceptDistribution (sampleDocument Proportional) (sampleDocument PerItem)
   \<and> sampleDocument Proportional \<noteq> sampleDocument PerItem
   \<and> calculateTotals noStrings (sampleDocument PerItem)
       = calculateTotals noStrings (sampleDocument Proportional)
   \<and> map (categoryFigures noStrings (sampleDocument PerItem))
         (categories (sampleDocument PerItem))
       = map (categoryFigures noStrings (sampleDocument Proportional))
           (categories (sampleDocument Proportional))"
proof -
  have same: "sameExceptDistribution (sampleDocument Proportional) (sampleDocument PerItem)"
    by (simp add: sameExceptDistribution_def sampleDocument_def sampleCategory_def)
  have differ: "sampleDocument Proportional \<noteq> sampleDocument PerItem"
    by (simp add: sampleDocument_def sampleCategory_def)
  show ?thesis
    using markupDistribution_no_influence [OF same, of noStrings] same differ
    by simp
qed

section \<open>Properties of the payment plan calculator\<close>





lemma samplePlan_balance: "dsub (Finite 11000) (Finite 1000) = Finite 10000"
  "dsub (Finite 500) (Finite 1000) = Finite (- 500)"
  by (simp_all add: dsub_def fl_eval)

lemma sample_quotients:
  "ddiv (Finite 10000) (Finite 12) = Finite (7330077518506667 / 8796093022208)"
  "ddiv (Finite 10000) (Finite 6) = Finite (7330077518506667 / 4398046511104)"
  by (simp_all add: fl_eval)

text \<open>
  Rates that cancel in exact arithmetic only: with the base rate 0.1 and the term
  increment -0.1 the monthly rate of the term 12 is not 0 but about
  \<open>-1.2 \<sqdot> 10\<^sup>-\<^sup>2\<^sup>0\<close>, so the term is amortised; \<open>1 + monthlyRate\<close> is 1, and with a
  \<open>pow\<close> that gives 1 for the base 1 the payment is a division by 0.
\<close>

lemma cancelling_rates_not_zero:
  assumes "pow (Finite 1) (Finite 12) = Finite 1"
  shows "monthlyRate cancellingPlan (Finite 12)
           = Finite (- 7686143364045647 / 664613997892457936451903530140172288)"
    and "calculatePaymentOptions pow (Finite 11000) cancellingPlan
           = [\<lparr>termN = Finite 12, monthlyPayment = NegInf, totalPayment = NegInf\<rparr>]"
proof -
  show rate: "monthlyRate cancellingPlan (Finite 12)
           = Finite (- 7686143364045647 / 664613997892457936451903530140172288)"
    by (simp add: monthlyRate_def annualInterestRate_def cancellingPlan_def samplePlan_def
        fl_eval)
  have one: "dadd (Finite 1)
               (Finite (- 7686143364045647 / 664613997892457936451903530140172288)) = Finite 1"
    by (simp add: fl_eval)
  have plan: "enabled cancellingPlan" "terms cancellingPlan = [Finite 12]"
    "downPayment cancellingPlan = Finite 1000"
    by (simp_all add: cancellingPlan_def samplePlan_def)
  show "calculatePaymentOptions pow (Finite 11000) cancellingPlan
           = [\<lparr>termN = Finite 12, monthlyPayment = NegInf, totalPayment = NegInf\<rparr>]"
    by (simp add: calculatePaymentOptions_def paymentOption_def Let_def plan rate one assms
        samplePlan_balance dle_def dsub_def fl_eval)
qed



section \<open>Properties of the page cursor\<close>

lemmas pdf_constants =
  A4_HEIGHT_def MARGIN_def FOOTER_HEIGHT_def HEADER_HEIGHT_def DRAW_HEIGHT_def
  tableHeaderHeight_def tableRowVerticalPadding_def cellLineHeight_def bottomBoundary_def

lemmas pdf_draws =
  drawHeader_def drawFooter_def addPage_def drawCategoryTitle_def drawSubcategoryTitle_def
  drawColumnHeader_def

lemma boundary_eq: "MARGIN + DRAW_HEIGHT = bottomBoundary"
  by (simp add: pdf_constants)

lemma drawItemRow_break:
  assumes "cursor s + rowHeight r > bottomBoundary"
  shows "drawn (drawItemRow sub r s) =
           drawn s @ [Footer (page s), AddPage, Header, CategoryTitle 35]
             @ (if sub then [SubcategoryTitle 45, ColumnHeader 50, ItemRow 57 (rowHeight r)]
                else [ColumnHeader 45, ItemRow 52 (rowHeight r)])"
    and "page (drawItemRow sub r s) = page s + 1"
    and "cursor (drawItemRow sub r s) = (if sub then 57 else 52) + rowHeight r"
  using assms
  by (simp_all add: drawItemRow_def Let_def boundary_eq pdf_draws)
     (simp_all add: pdf_constants)

lemma drawItemRow_fits:
  assumes "cursor s + rowHeight r \<le> bottomBoundary"
  shows "drawn (drawItemRow sub r s) = drawn s @ [ItemRow (cursor s) (rowHeight r)]"
    and "page (drawItemRow sub r s) = page s"
    and "cursor (drawItemRow sub r s) = cursor s + rowHeight r"
  using assms
  by (simp_all add: drawItemRow_def Let_def boundary_eq)

lemma drawItemRow_within:
  assumes "rowHeight r \<le> 220" and "list_all rowWithinBoundary (drawn s)"
  shows "list_all rowWithinBoundary (drawn (drawItemRow sub r s))"
proof (cases "cursor s + rowHeight r > bottomBoundary")
  case True
  show ?thesis
    using assms by (simp add: drawItemRow_break [OF True]) (simp add: pdf_constants)
next
  case False
  then have fits: "cursor s + rowHeight r \<le> bottomBoundary"
    by simp
  show ?thesis
    using assms fits by (simp add: drawItemRow_fits [OF fits])
qed

lemma drawItems_within:
  assumes "\<forall>r \<in> set rows. rowHeight r \<le> 220" and "list_all rowWithinBoundary (drawn s)"
  shows "list_all rowWithinBoundary (drawn (drawItems sub rows s))"
  using assms
proof (induction rows arbitrary: s)
  case Nil
  then show ?case by (simp add: drawItems_def)
next
  case (Cons r rows)
  have "list_all rowWithinBoundary (drawn (drawItemRow sub r s))"
    using Cons.prems by (simp add: drawItemRow_within)
  then have "list_all rowWithinBoundary (drawn (drawItems sub rows (drawItemRow sub r s)))"
    using Cons.IH Cons.prems(1) by simp
  then show ?case
    by (simp add: drawItems_def)
qed

text \<open>
  C5, as the claim states it, fails: a row of 64 wrapped lines is 228 mm high; met at
  \<open>y = 100\<close> it breaks the page, is written at \<open>y = 52\<close> under the repeated category
  title and column header, and ends at 280, past the boundary of 277.
\<close>

theorem item_row_past_boundary_counterexample:
  "drawn (drawItemRow False [64] \<lparr>cursor = 100, page = 1, drawn = []\<rparr>)
     = [Footer 1, AddPage, Header, CategoryTitle 35, ColumnHeader 45, ItemRow 52 228]
   \<and> \<not> rowWithinBoundary (ItemRow 52 228)
   \<and> bottomBoundary = 277"
  by (simp add: drawItemRow_def rowHeight_def Let_def pdf_draws)
     (simp add: pdf_constants)

text \<open>
  C5, amended. Before each item row of measured height \<open>rowHeight\<close> is written, if
  \<open>y + rowHeight\<close> exceeds the bottom content boundary (page height - margin - footer
  band, 277), the exporter draws the current page's footer, starts a new page, increments
  the page counter, redraws the header, which resets \<open>y\<close> to the top of the content
  (35), then repeats the category title, the subcategory title when there is one, and the
  column header, and writes the row below them, at 52 or 57; otherwise it writes the row
  at \<open>y\<close> on the current page. Item rows of height at most 220, the space left under
  the repeated headings of a fresh page, are never written past the boundary.
\<close>

theorem item_row_page_break:
  "(cursor s + rowHeight r > bottomBoundary \<longrightarrow>
      drawn (drawItemRow sub r s) =
        drawn s @ [Footer (page s), AddPage, Header, CategoryTitle 35]
          @ (if sub then [SubcategoryTitle 45, ColumnHeader 50, ItemRow 57 (rowHeight r)]
             else [ColumnHeader 45, ItemRow 52 (rowHeight r)])
      \<and> page (drawItemRow sub r s) = page s + 1)
   \<and> (cursor s + rowHeight r \<le> bottomBoundary \<longrightarrow>
      drawn (drawItemRow sub r s) = drawn s @ [ItemRow (cursor s) (rowHeight r)]
      \<and> page (drawItemRow sub r s) = page s)
   \<and> ((\<forall>r \<in> set rows. rowHeight r \<le> 220) \<and> list_all rowWithinBoundary (drawn s) \<longrightarrow>
      list_all rowWithinBoundary (drawn (drawItems sub rows s)))"
  using drawItemRow_break [of s r sub] drawItemRow_fits [of s r sub]
    drawItems_within [of rows s sub]
  by simp

theorem item_row_page_break_witness:
  "drawn (drawItemRow True [3] \<lparr>cursor = 270, page = 1, drawn = []\<rparr>)
     = [Footer 1, AddPage, Header, CategoryTitle 35, SubcategoryTitle 45, ColumnHeader 50,
        ItemRow 57 14.5]
   \<and> page (drawItemRow True [3] \<lparr>cursor = 270, page = 1, drawn = []\<rparr>) = 2
   \<and> drawn (drawItemRow True [3] \<lparr>cursor = 100, page = 1, drawn = []\<rparr>) = [ItemRow 100 14.5]
   \<and> list_all rowWithinBoundary
        (drawn (drawItems True [[3], [2, 4]] \<lparr>cursor = 270, page = 1, drawn = []\<rparr>))"
proof -
  have h3: "rowHeight [3] = 14.5" and h2: "rowHeight [2, 4] = 18"
    by (simp_all add: rowHeight_def Let_def pdf_constants)
  show ?thesis
    using item_row_page_break [of "\<lparr>cursor = 270, page = 1, drawn = []\<rparr>" "[3]" True
        "[[3], [2, 4]]"]
      item_row_page_break [of "\<lparr>cursor = 100, page = 1, drawn = []\<rparr>" "[3]" True "[]"]
    by (simp add: h3 h2 pdf_constants)
qed

section \<open>Properties of the Roman page numbers\<close>

lemma pop_decimalDigits:
  "pop (decimalDigits n) = (Some (n mod 10), if n < 10 then [] else decimalDigits (n div 10))"
  by (subst decimalDigits.simps) (simp add: pop_def)

lemma pop_Nil: "pop [] = (None, [])"
  by (simp add: pop_def)

lemma joinDigits_snoc: "joinDigits (ds @ [d]) = 10 * joinDigits ds + d"
  by (simp add: joinDigits_def)

lemma joinDigits_decimalDigits: "joinDigits (decimalDigits n) = n"
proof (induction n rule: decimalDigits.induct)
  case (1 n)
  show ?case
  proof (cases "n < 10")
    case True
    then show ?thesis
      by (subst decimalDigits.simps) (simp add: joinDigits_def)
  next
    case False
    with "1.IH" show ?thesis
      by (subst decimalDigits.simps) (simp add: joinDigits_snoc)
  qed
qed

lemma keyAt_digit: "d < 10 \<Longrightarrow> i < 3 \<Longrightarrow> keyAt (Some d) i = key_table ! (d + i * 10)"
  by (simp add: keyAt_def key_table_def)

lemma keyAt_None: "keyAt None i = []"
  by (simp add: keyAt_def)

lemma key_table_0: "key_table ! 0 = []" "key_table ! 10 = []"
  by (simp_all add: key_table_def)

lemma romanLoop_closed:
  "romanLoop 3 (decimalDigits n) [] =
     (if n < 1000 then [] else decimalDigits (n div 1000),
      key_table ! (n div 100 mod 10) @ key_table ! (n div 10 mod 10 + 10)
        @ key_table ! (n mod 10 + 20))"
proof -
  consider "n < 10" | "10 \<le> n" "n < 100" | "100 \<le> n" "n < 1000" | "1000 \<le> n"
    by linarith
  then show ?thesis
  proof cases
    case 1
    then show ?thesis
      by (simp add: numeral_3_eq_3 pop_decimalDigits keyAt_digit keyAt_None key_table_0 pop_Nil)
  next
    case 2
    then have "n div 10 < 10" by simp
    with 2 show ?thesis
      by (simp add: numeral_3_eq_3 pop_decimalDigits keyAt_digit keyAt_None key_table_0 pop_Nil)
  next
    case 3
    then have "\<not> n div 10 < 10" "n div 10 div 10 < 10" "n div 100 < 10"
      by simp_all
    with 3 show ?thesis
      by (simp add: numeral_3_eq_3 pop_decimalDigits keyAt_digit keyAt_None key_table_0 pop_Nil
          div_mult2_eq [symmetric])
  next
    case 4
    then have "\<not> n div 10 < 10" "\<not> n div 10 div 10 < 10"
      by simp_all
    with 4 show ?thesis
      by (simp add: numeral_3_eq_3 pop_decimalDigits keyAt_digit keyAt_None key_table_0 pop_Nil
          div_mult2_eq [symmetric])
  qed
qed

lemma romanize_closed:
  "romanize n =
     toLowerCase (replicate (n div 1000) (CHR ''M'') @ key_table ! (n div 100 mod 10)
       @ key_table ! (n div 10 mod 10 + 10) @ key_table ! (n mod 10 + 20))"
proof (cases "n < 1000")
  case True
  then show ?thesis
    by (simp add: romanize_def romanLoop_closed joinDigits_def)
next
  case False
  then show ?thesis
    by (simp add: romanize_def romanLoop_closed joinDigits_decimalDigits)
qed


lemma toRoman_skip: "n < v \<Longrightarrow> toRoman ((v, s) # table) n = toRoman table n"
  by simp

lemma toRoman_take:
  assumes "k * v \<le> n" and "n < Suc k * v"
  shows "toRoman ((v, s) # table) n = concat (replicate k s) @ toRoman table (n - k * v)"
proof -
  have v: "0 < v"
    using assms by (cases v) simp_all
  have "n div v = k"
    using assms v by (simp add: div_nat_eqI mult.commute)
  moreover have "n mod v = n - k * v"
    using \<open>n div v = k\<close> by (metis minus_div_mult_eq_mod)
  ultimately show ?thesis
    by simp
qed

lemma concat_replicate_small:
  "concat (replicate 2 s) = s @ s" "concat (replicate 3 s) = s @ s @ s"
  by (simp_all add: numeral_2_eq_2 numeral_3_eq_3)

lemma toRoman_block:
  assumes "0 < p" and "b < 10" and "r < p"
  shows "toRoman ((9 * p, s9) # (5 * p, s5) # (4 * p, s4) # (p, s1) # table) (b * p + r)
           = digitNumeral s9 s5 s4 s1 b @ toRoman table r"
proof -
  from \<open>b < 10\<close>
  have "b = 0 \<or> b = 1 \<or> b = 2 \<or> b = 3 \<or> b = 4 \<or> b = 5 \<or> b = 6 \<or> b = 7 \<or> b = 8 \<or> b = 9"
    by arith
  then consider "b = 0" | "b = 1" | "b = 2" | "b = 3" | "b = 4" | "b = 5"
    | "b = 6" | "b = 7" | "b = 8" | "b = 9"
    by blast
  then show ?thesis
  proof cases
    case 1
    with assms show ?thesis
      by (simp add: digitNumeral_def toRoman_skip concat_replicate_small del: toRoman.simps)
  next
    case 2
    with assms show ?thesis
      using toRoman_take [of 1 p "p + r" s1 table]
      by (simp add: digitNumeral_def toRoman_skip concat_replicate_small del: toRoman.simps)
  next
    case 3
    with assms show ?thesis
      using toRoman_take [of 2 p "2 * p + r" s1 table]
      by (simp add: digitNumeral_def toRoman_skip concat_replicate_small del: toRoman.simps)
  next
    case 4
    with assms show ?thesis
      using toRoman_take [of 3 p "3 * p + r" s1 table]
      by (simp add: digitNumeral_def toRoman_skip concat_replicate_small del: toRoman.simps)
  next
    case 5
    with assms show ?thesis
      using toRoman_take [of 1 "4 * p" "4 * p + r" s4 "(p, s1) # table"]
      by (simp add: digitNumeral_def toRoman_skip concat_replicate_small del: toRoman.simps)
  next
    case 6
    with assms show ?thesis
      using toRoman_take [of 1 "5 * p" "5 * p + r" s5 "(4 * p, s4) # (p, s1) # table"]
      by (simp add: digitNumeral_def toRoman_skip concat_replicate_small del: toRoman.simps)
  next
    case 7
    with assms show ?thesis
      using toRoman_take [of 1 "5 * p" "6 * p + r" s5 "(4 * p, s4) # (p, s1) # table"]
        toRoman_take [of 1 p "p + r" s1 table]
      by (simp add: digitNumeral_def toRoman_skip concat_replicate_small del: toRoman.simps)
  next
    case 8
    with assms show ?thesis
      using toRoman_take [of 1 "5 * p" "7 * p + r" s5 "(4 * p, s4) # (p, s1) # table"]
        toRoman_take [of 2 p "2 * p + r" s1 table]
      by (simp add: digitNumeral_def toRoman_skip concat_replicate_small del: toRoman.simps)
  next
    case 9
    with assms show ?thesis
      using toRoman_take [of 1 "5 * p" "8 * p + r" s5 "(4 * p, s4) # (p, s1) # table"]
        toRoman_take [of 3 p "3 * p + r" s1 table]
      by (simp add: digitNumeral_def toRoman_skip concat_replicate_small del: toRoman.simps)
  next
    case 10
    with assms show ?thesis
      using toRoman_take [of 1 "9 * p" "9 * p + r" s9 "(5 * p, s5) # (4 * p, s4) # (p, s1) # table"]
      by (simp add: digitNumeral_def toRoman_skip concat_replicate_small del: toRoman.simps)
  qed
qed


lemma digit_cases:
  assumes "b < (10::nat)"
    and "P 0" "P 1" "P 2" "P 3" "P 4" "P 5" "P 6" "P 7" "P 8" "P 9"
  shows "P b"
proof -
  from assms(1)
  have "b = 0 \<or> b = 1 \<or> b = 2 \<or> b = 3 \<or> b = 4 \<or> b = 5 \<or> b = 6 \<or> b = 7 \<or> b = 8 \<or> b = 9"
    by arith
  with assms(2-) show ?thesis
    by blast
qed

lemma concat_replicate_single: "concat (replicate k [c]) = replicate k c"
  by (induction k) simp_all

lemma toRoman_closed:
  "toRoman romanTable n =
     replicate (n div 1000) (CHR ''m'')
       @ digitNumeral ''cm'' ''d'' ''cd'' ''c'' (n div 100 mod 10)
       @ digitNumeral ''xc'' ''l'' ''xl'' ''x'' (n div 10 mod 10)
       @ digitNumeral ''ix'' ''v'' ''iv'' ''i'' (n mod 10)"
proof -
  let ?units = "[(9, ''ix''), (5, ''v''), (4, ''iv''), (1, ''i'')]"
  let ?tens = "(90, ''xc'') # (50, ''l'') # (40, ''xl'') # (10, ''x'') # ?units"
  let ?hundreds = "(900, ''cm'') # (500, ''d'') # (400, ''cd'') # (100, ''c'') # ?tens"
  have split1000: "n mod 1000 = (n div 100 mod 10) * 100 + n mod 100"
    using mod_mult2_eq [of n 100 10] by simp
  have split100: "n mod 100 = (n div 10 mod 10) * 10 + n mod 10"
    using mod_mult2_eq [of n 10 10] by simp
  have "toRoman ((9 * 1, ''ix'') # (5 * 1, ''v'') # (4 * 1, ''iv'') # (1, ''i'') # [])
          (n mod 10 * 1 + 0) = digitNumeral ''ix'' ''v'' ''iv'' ''i'' (n mod 10) @ toRoman [] 0"
    by (rule toRoman_block) simp_all
  then have units: "toRoman ?units (n mod 10) = digitNumeral ''ix'' ''v'' ''iv'' ''i'' (n mod 10)"
    by (simp del: toRoman.simps) simp
  have "toRoman ((9 * 10, ''xc'') # (5 * 10, ''l'') # (4 * 10, ''xl'') # (10, ''x'') # ?units)
          (n div 10 mod 10 * 10 + n mod 10)
        = digitNumeral ''xc'' ''l'' ''xl'' ''x'' (n div 10 mod 10) @ toRoman ?units (n mod 10)"
    by (rule toRoman_block) simp_all
  then have tens: "toRoman ?tens (n mod 100)
        = digitNumeral ''xc'' ''l'' ''xl'' ''x'' (n div 10 mod 10)
            @ digitNumeral ''ix'' ''v'' ''iv'' ''i'' (n mod 10)"
    unfolding units by (subst split100) (simp only: numeral_times_numeral semiring_norm)
  have "toRoman ((9 * 100, ''cm'') # (5 * 100, ''d'') # (4 * 100, ''cd'') # (100, ''c'') # ?tens)
          (n div 100 mod 10 * 100 + n mod 100)
        = digitNumeral ''cm'' ''d'' ''cd'' ''c'' (n div 100 mod 10) @ toRoman ?tens (n mod 100)"
    by (rule toRoman_block) simp_all
  then have hundreds: "toRoman ?hundreds (n mod 1000)
        = digitNumeral ''cm'' ''d'' ''cd'' ''c'' (n div 100 mod 10)
            @ digitNumeral ''xc'' ''l'' ''xl'' ''x'' (n div 10 mod 10)
            @ digitNumeral ''ix'' ''v'' ''iv'' ''i'' (n mod 10)"
    unfolding tens by (subst split1000) (simp only: numeral_times_numeral semiring_norm)
  have "toRoman romanTable n = concat (replicate (n div 1000) ''m'') @ toRoman ?hundreds (n mod 1000)"
    unfolding romanTable_def by (subst toRoman.simps) (rule refl)
  then show ?thesis
    by (simp only: hundreds concat_replicate_single)
qed

lemma key_table_lower:
  assumes "b < 10"
  shows "toLowerCase (key_table ! b) = digitNumeral ''cm'' ''d'' ''cd'' ''c'' b"
    and "toLowerCase (key_table ! (b + 10)) = digitNumeral ''xc'' ''l'' ''xl'' ''x'' b"
    and "toLowerCase (key_table ! (b + 20)) = digitNumeral ''ix'' ''v'' ''iv'' ''i'' b"
  by (rule digit_cases [OF assms];
      simp add: key_table_def digitNumeral_def toLowerCase_def lowerChar_def)+

lemma toLowerCase_append: "toLowerCase (xs @ ys) = toLowerCase xs @ toLowerCase ys"
  by (simp add: toLowerCase_def)

lemma toLowerCase_M: "toLowerCase (replicate k (CHR ''M'')) = replicate k (CHR ''m'')"
  by (simp add: toLowerCase_def lowerChar_def)

text \<open>
  C7. For every integer \<open>n\<close> with 1 \<le> n \<le> 3999, \<open>romanize\<close> returns the lowercase
  Roman numeral of \<open>n\<close>; in particular \<open>romanize 1\<close> is i, \<open>romanize 4\<close> is iv and
  \<open>romanize 11\<close> is xi.
\<close>

theorem romanize_correct:
  "(1 \<le> n \<and> n \<le> 3999 \<longrightarrow> romanize n = toRoman romanTable n)
   \<and> romanize 1 = ''i'' \<and> romanize 4 = ''iv'' \<and> romanize 11 = ''xi''"
proof -
  have "toRoman romanTable 1 = ''i''" "toRoman romanTable 4 = ''iv''"
    "toRoman romanTable 11 = ''xi''"
    by (simp_all add: romanTable_def)
  moreover have "romanize k = toRoman romanTable k" for k
    by (simp add: romanize_closed toRoman_closed toLowerCase_append toLowerCase_M
        key_table_lower)
  ultimately show ?thesis
    by simp
qed

theorem romanize_correct_witness:
  "(1::nat) \<le> 1994 \<and> (1994::nat) \<le> 3999 \<and> romanize 1994 = ''mcmxciv''"
proof -
  have "toRoman romanTable 1994 = ''mcmxciv''"
    by (simp add: romanTable_def)
  with romanize_correct [of 1994] show ?thesis
    by simp
qed

section \<open>Properties of the column registry\<close>

lemma compatible_nonempty: "COMPATIBLE_INPUT_TYPES t \<noteq> []"
  by (cases t) simp_all

lemma compatible_first: "COMPATIBLE_INPUT_TYPES t ! 0 \<in> set (COMPATIBLE_INPUT_TYPES t)"
  by (cases t) simp_all

lemma handleColumnDefinitionChange_dataType:
  assumes "prev k = Some oldDef"
  shows "handleColumnDefinitionChange prev k (SetDataType t) =
           Some (prev(k \<mapsto> oldDef\<lparr>dataType := t,
             inputType := (if inputType oldDef \<in> set (COMPATIBLE_INPUT_TYPES t)
                           then inputType oldDef else COMPATIBLE_INPUT_TYPES t ! 0)\<rparr>))"
  using assms by (simp add: handleColumnDefinitionChange_def Let_def)

text \<open>
  C8. For every column key with a definition and every change of that column's
  \<open>dataType\<close> through \<open>handleColumnDefinitionChange\<close>: the definition stored under the
  key has the new data type; if the column's input type was not in the compatible set of
  the new data type, the stored input type is the first compatible option (for
  \<open>boolean\<close> it is \<open>checkbox\<close>); if it was compatible it is preserved; either way it is
  compatible afterwards, and the other fields and the other columns are unchanged.
\<close>

theorem dataType_change_forces_compatible_input:
  assumes "prev k = Some oldDef"
  shows "\<exists>newDef. handleColumnDefinitionChange prev k (SetDataType t) = Some (prev(k \<mapsto> newDef))
           \<and> newDef = oldDef\<lparr>dataType := t, inputType := inputType newDef\<rparr>
           \<and> (inputType oldDef \<notin> set (COMPATIBLE_INPUT_TYPES t)
                \<longrightarrow> inputType newDef = COMPATIBLE_INPUT_TYPES t ! 0)
           \<and> (inputType oldDef \<in> set (COMPATIBLE_INPUT_TYPES t)
                \<longrightarrow> inputType newDef = inputType oldDef)
           \<and> inputType newDef \<in> set (COMPATIBLE_INPUT_TYPES (dataType newDef))
           \<and> (t = BooleanData \<longrightarrow> inputType newDef = CheckboxInput)"
proof (intro exI conjI impI)
  let ?newDef = "oldDef\<lparr>dataType := t,
      inputType := (if inputType oldDef \<in> set (COMPATIBLE_INPUT_TYPES t)
                    then inputType oldDef else COMPATIBLE_INPUT_TYPES t ! 0)\<rparr>"
  show "handleColumnDefinitionChange prev k (SetDataType t) = Some (prev(k \<mapsto> ?newDef))"
    using assms by (rule handleColumnDefinitionChange_dataType)
  show "?newDef = oldDef\<lparr>dataType := t, inputType := inputType ?newDef\<rparr>"
    by simp
  show "inputType ?newDef = COMPATIBLE_INPUT_TYPES t ! 0"
    if "inputType oldDef \<notin> set (COMPATIBLE_INPUT_TYPES t)"
    using that by simp
  show "inputType ?newDef = inputType oldDef"
    if "inputType oldDef \<in> set (COMPATIBLE_INPUT_TYPES t)"
    using that by simp
  show "inputType ?newDef \<in> set (COMPATIBLE_INPUT_TYPES (dataType ?newDef))"
    using compatible_first [of t] by simp
  show "inputType ?newDef = CheckboxInput" if "t = BooleanData"
    using that by simp
qed

theorem dataType_change_forces_compatible_input_witness:
  "sampleColumns ''description'' \<noteq> None
   \<and> map_option (\<lambda>defs. map_option inputType (defs ''description''))
        (handleColumnDefinitionChange sampleColumns ''description'' (SetDataType BooleanData))
       = Some (Some CheckboxInput)
   \<and> map_option (\<lambda>defs. map_option inputType (defs ''unit''))
        (handleColumnDefinitionChange sampleColumns ''unit'' (SetDataType NumberData))
       = Some (Some SelectInput)"
proof -
  obtain d where d: "sampleColumns ''description'' = Some d" "inputType d = TextareaInput"
    by (simp add: sampleColumns_def)
  obtain u where u: "sampleColumns ''unit'' = Some u" "inputType u = SelectInput"
    by (simp add: sampleColumns_def)
  show ?thesis
    using dataType_change_forces_compatible_input
        [where prev = sampleColumns and k = "''description''" and oldDef = d and t = BooleanData]
      dataType_change_forces_compatible_input
        [where prev = sampleColumns and k = "''unit''" and oldDef = u and t = NumberData]
      d u
    by auto
qed

subsection \<open>Adding a column\<close>

lemma lowerChar_not_upper: "lowerChar c \<notin> set ''ABCDEFGHIJKLMNOPQRSTUVWXYZ''"
proof (cases "c \<in> set ''ABCDEFGHIJKLMNOPQRSTUVWXYZ''")
  case True
  then show ?thesis
    by (auto simp: lowerChar_def)
next
  case False
  then have "lowerChar c = c"
    by (simp add: lowerChar_def)
  with False show ?thesis
    by simp
qed

lemma newColumnKey_chars:
  "c \<in> set (newColumnKey newLabel) \<Longrightarrow> c \<in> set ''abcdefghijklmnopqrstuvwxyz0123456789_''"
proof -
  assume "c \<in> set (newColumnKey newLabel)"
  then have "c \<in> (\<lambda>x. if isAlphanumeric (lowerChar x) then lowerChar x else CHR ''_'')
                 ` set (trim newLabel)"
    by (simp add: newColumnKey_def replaceNonAlphanumeric_def toLowerCase_def image_image)
  then obtain x where c: "c = (if isAlphanumeric (lowerChar x) then lowerChar x else CHR ''_'')"
    by blast
  show ?thesis
  proof (cases "isAlphanumeric (lowerChar x)")
    case True
    with lowerChar_not_upper [of x] c show ?thesis
      by (auto simp: isAlphanumeric_def)
  next
    case False
    with c show ?thesis by simp
  qed
qed

text \<open>
  C9, as the claim states it, fails: for a label of two spaces the key the claim derives,
  two underscores, is not in the registry, yet the creation is rejected (the label is
  empty once trimmed) and no definition is added.
\<close>

theorem add_column_blank_label_counterexample:
  "specColumnKey ''  '' = ''__''
   \<and> sampleColumns ''__'' = None
   \<and> handleAddColumn sampleColumns ''  '' StringData = (Some EmptyLabel, sampleColumns)"
  by (simp add: specColumnKey_def replaceNonAlphanumeric_def toLowerCase_def lowerChar_def
      isAlphanumeric_def sampleColumns_def handleAddColumn_def trim_def isWhiteSpace_def)

text \<open>
  C9, amended. A label that is empty once trimmed is rejected and the registry is left
  unchanged. Creating a column with any other label derives its machine key from the
  trimmed label by lowercasing it and replacing every character that is not an ASCII
  letter or digit with an underscore (so the key has the length of the trimmed label and
  consists of lowercase letters, digits and underscores); if the derived key already
  exists in the registry the creation is rejected and the registry is left unchanged;
  otherwise, for a derived key that is not the name of a property every object has, a new
  definition with the trimmed label, the chosen data type and its first compatible input
  type is added under the derived key and all existing definitions are unchanged.
\<close>

theorem add_column_spec:
  "(trim newLabel = [] \<longrightarrow>
      handleAddColumn columnDefinitions newLabel t = (Some EmptyLabel, columnDefinitions))
   \<and> newColumnKey newLabel = replaceNonAlphanumeric (toLowerCase (trim newLabel))
   \<and> length (newColumnKey newLabel) = length (trim newLabel)
   \<and> (\<forall>c \<in> set (newColumnKey newLabel). c \<in> set ''abcdefghijklmnopqrstuvwxyz0123456789_'')
   \<and> (trim newLabel \<noteq> [] \<and> columnDefinitions (newColumnKey newLabel) \<noteq> None \<longrightarrow>
      handleAddColumn columnDefinitions newLabel t
        = (Some SimilarColumnExists, columnDefinitions))
   \<and> (trim newLabel \<noteq> [] \<and> columnDefinitions (newColumnKey newLabel) = None
        \<and> newColumnKey newLabel \<notin> set objectPrototypeKeys \<longrightarrow>
      (\<exists>newDef. handleAddColumn columnDefinitions newLabel t
                  = (None, columnDefinitions(newColumnKey newLabel \<mapsto> newDef))
         \<and> label newDef = trim newLabel \<and> dataType newDef = t
         \<and> inputType newDef = COMPATIBLE_INPUT_TYPES t ! 0
         \<and> (\<forall>k. k \<noteq> newColumnKey newLabel \<longrightarrow>
               snd (handleAddColumn columnDefinitions newLabel t) k = columnDefinitions k)))"
proof (intro conjI impI ballI)
  show "length (newColumnKey newLabel) = length (trim newLabel)"
    by (simp add: newColumnKey_def replaceNonAlphanumeric_def toLowerCase_def)
  show "newColumnKey newLabel = replaceNonAlphanumeric (toLowerCase (trim newLabel))"
    by (simp add: newColumnKey_def)
next
  fix c
  assume "c \<in> set (newColumnKey newLabel)"
  then show "c \<in> set ''abcdefghijklmnopqrstuvwxyz0123456789_''"
    by (rule newColumnKey_chars)
next
  assume "trim newLabel = []"
  then show "handleAddColumn columnDefinitions newLabel t = (Some EmptyLabel, columnDefinitions)"
    by (simp add: handleAddColumn_def)
next
  assume "trim newLabel \<noteq> [] \<and> columnDefinitions (newColumnKey newLabel) \<noteq> None"
  then show "handleAddColumn columnDefinitions newLabel t
               = (Some SimilarColumnExists, columnDefinitions)"
    by (simp add: handleAddColumn_def Let_def truthyProperty_def)
next
  assume fresh: "trim newLabel \<noteq> [] \<and> columnDefinitions (newColumnKey newLabel) = None
                   \<and> newColumnKey newLabel \<notin> set objectPrototypeKeys"
  let ?newDef = "\<lparr>label = trim newLabel, defaultVisible = False, isEditable = True,
                   dataType = t, inputType = COMPATIBLE_INPUT_TYPES t ! 0,
                   options = (if t = StringData \<or> t = NumberData then Some [] else None)\<rparr>"
  have res: "handleAddColumn columnDefinitions newLabel t
               = (None, columnDefinitions(newColumnKey newLabel \<mapsto> ?newDef))"
    using fresh by (simp add: handleAddColumn_def Let_def truthyProperty_def)
  show "\<exists>newDef. handleAddColumn columnDefinitions newLabel t
                  = (None, columnDefinitions(newColumnKey newLabel \<mapsto> newDef))
         \<and> label newDef = trim newLabel \<and> dataType newDef = t
         \<and> inputType newDef = COMPATIBLE_INPUT_TYPES t ! 0
         \<and> (\<forall>k. k \<noteq> newColumnKey newLabel \<longrightarrow>
               snd (handleAddColumn columnDefinitions newLabel t) k = columnDefinitions k)"
    by (rule exI [of _ ?newDef]) (simp add: res)
qed

lemma sample_trim: "trim '' Peso (kg)'' = ''Peso (kg)''"
  by (simp add: trim_def isWhiteSpace_def)

lemma sample_key: "newColumnKey '' Peso (kg)'' = ''peso__kg_''"
  by (simp add: newColumnKey_def sample_trim replaceNonAlphanumeric_def toLowerCase_def
      lowerChar_def isAlphanumeric_def)

theorem add_column_spec_witness:
  "handleAddColumn sampleColumns '' '' NumberData = (Some EmptyLabel, sampleColumns)
   \<and> handleAddColumn sampleColumns ''Unit'' NumberData
       = (Some SimilarColumnExists, sampleColumns)
   \<and> fst (handleAddColumn sampleColumns '' Peso (kg)'' NumberData) = None
   \<and> map_option label (snd (handleAddColumn sampleColumns '' Peso (kg)'' NumberData)
        ''peso__kg_'') = Some ''Peso (kg)''
   \<and> snd (handleAddColumn sampleColumns '' Peso (kg)'' NumberData) ''unit''
       = sampleColumns ''unit''"
proof -
  have blank: "trim '' '' = []"
    by (simp add: trim_def isWhiteSpace_def)
  have k1: "newColumnKey ''Unit'' = ''unit''" and t1: "trim ''Unit'' \<noteq> []"
    by (simp_all add: newColumnKey_def replaceNonAlphanumeric_def toLowerCase_def lowerChar_def
        isAlphanumeric_def trim_def isWhiteSpace_def)
  have ex1: "sampleColumns ''unit'' \<noteq> None"
    and new: "sampleColumns ''peso__kg_'' = None" "''peso__kg_'' \<notin> set objectPrototypeKeys"
    by (simp_all add: sampleColumns_def objectPrototypeKeys_def)
  have differ: "''unit'' \<noteq> ''peso__kg_''"
    by simp
  have ex1': "trim ''Unit'' \<noteq> [] \<and> sampleColumns (newColumnKey ''Unit'') \<noteq> None"
    using t1 ex1 by (simp add: k1)
  have new': "trim '' Peso (kg)'' \<noteq> [] \<and> sampleColumns (newColumnKey '' Peso (kg)'') = None
                \<and> newColumnKey '' Peso (kg)'' \<notin> set objectPrototypeKeys"
    using new by (simp add: sample_key sample_trim)
  have rejected_blank:
    "handleAddColumn sampleColumns '' '' NumberData = (Some EmptyLabel, sampleColumns)"
    using add_column_spec [of "'' ''" sampleColumns NumberData, THEN conjunct1] blank
    by (rule mp)
  have rejected_unit:
    "handleAddColumn sampleColumns ''Unit'' NumberData = (Some SimilarColumnExists, sampleColumns)"
    using add_column_spec [of "''Unit''" sampleColumns NumberData, THEN conjunct2, THEN conjunct2,
        THEN conjunct2, THEN conjunct2, THEN conjunct1] ex1'
    by (rule mp)
  have "\<exists>newDef. handleAddColumn sampleColumns '' Peso (kg)'' NumberData
                  = (None, sampleColumns(newColumnKey '' Peso (kg)'' \<mapsto> newDef))
         \<and> label newDef = trim '' Peso (kg)'' \<and> dataType newDef = NumberData
         \<and> inputType newDef = COMPATIBLE_INPUT_TYPES NumberData ! 0
         \<and> (\<forall>k. k \<noteq> newColumnKey '' Peso (kg)'' \<longrightarrow>
               snd (handleAddColumn sampleColumns '' Peso (kg)'' NumberData) k
                 = sampleColumns k)"
    using add_column_spec [of "'' Peso (kg)''" sampleColumns NumberData, THEN conjunct2,
        THEN conjunct2, THEN conjunct2, THEN conjunct2, THEN conjunct2] new'
    by (rule mp)
  then have "\<exists>newDef. handleAddColumn sampleColumns '' Peso (kg)'' NumberData
                  = (None, sampleColumns(''peso__kg_'' \<mapsto> newDef))
         \<and> label newDef = ''Peso (kg)'' \<and> dataType newDef = NumberData
         \<and> inputType newDef = COMPATIBLE_INPUT_TYPES NumberData ! 0
         \<and> (\<forall>k. k \<noteq> ''peso__kg_'' \<longrightarrow>
               snd (handleAddColumn sampleColumns '' Peso (kg)'' NumberData) k
                 = sampleColumns k)"
    unfolding sample_key sample_trim .
  then obtain newDef where
    added: "handleAddColumn sampleColumns '' Peso (kg)'' NumberData
              = (None, sampleColumns(''peso__kg_'' \<mapsto> newDef))"
    and lab: "label newDef = ''Peso (kg)''"
    and others: "\<forall>k. k \<noteq> ''peso__kg_'' \<longrightarrow>
               snd (handleAddColumn sampleColumns '' Peso (kg)'' NumberData) k
                 = sampleColumns k"
    by (elim exE conjE)
  have kept: "snd (handleAddColumn sampleColumns '' Peso (kg)'' NumberData) ''unit''
          = sampleColumns ''unit''"
    by (rule others [rule_format, OF differ])
  have fst_added: "fst (handleAddColumn sampleColumns '' Peso (kg)'' NumberData) = None"
    by (simp only: added fst_conv)
  have label_added:
    "map_option label (snd (handleAddColumn sampleColumns '' Peso (kg)'' NumberData)
        ''peso__kg_'') = Some ''Peso (kg)''"
    by (simp only: added snd_conv fun_upd_same option.map lab)
  from rejected_blank rejected_unit fst_added label_added kept show ?thesis
    by (intro conjI)
qed

subsection \<open>New items\<close>

text \<open>
  C10, as the claim states it, fails: the column \<open>quantity\<close> has the data type
  \<open>number\<close>, and a new item gets 1 for it, not 0.
\<close>

theorem new_item_quantity_counterexample:
  "map_option dataType (sampleColumns ''quantity'') = Some NumberData
   \<and> newItem ''id-1'' sampleColumns ''quantity'' = Some (JNumber (Num 1))
   \<and> JNumber (Num 1) \<noteq> JNumber (Num 0)"
  by (simp add: sampleColumns_def newItem_def initialValue_def)

text \<open>
  C10, amended. When a new item is created, it gets a value for every column key of the
  current registry (and, besides the identifier, for no other key). The key \<open>quantity\<close>
  is initialised to 1. For every other key the value follows the column's definition:
  columns of data type \<open>number\<close> get 0, \<open>boolean\<close> columns get false, columns of
  another data type with a select input get their first option (the empty string when
  they have no option), and all other columns get the empty string. Every item that
  \<open>handleAddItems\<close> appends is such an item, and the items before are kept.
\<close>

theorem new_item_defaults:
  assumes "columnDefinitions k = Some def"
  shows "(k = ''quantity'' \<longrightarrow> newItem uuid columnDefinitions k = Some (JNumber (Num 1)))
       \<and> (k \<noteq> ''quantity'' \<and> dataType def = NumberData \<longrightarrow>
            newItem uuid columnDefinitions k = Some (JNumber (Num 0)))
       \<and> (k \<noteq> ''quantity'' \<and> dataType def = BooleanData \<longrightarrow>
            newItem uuid columnDefinitions k = Some (JBool False))
       \<and> (k \<noteq> ''quantity'' \<and> dataType def \<noteq> NumberData \<and> dataType def \<noteq> BooleanData
            \<and> inputType def = SelectInput \<longrightarrow>
            newItem uuid columnDefinitions k
              = Some (JString (case options def of Some (opt # rest) \<Rightarrow> opt | _ \<Rightarrow> [])))
       \<and> (k \<noteq> ''quantity'' \<and> dataType def \<noteq> NumberData \<and> dataType def \<noteq> BooleanData
            \<and> inputType def \<noteq> SelectInput \<longrightarrow>
            newItem uuid columnDefinitions k = Some (JString []))
       \<and> dom (newItem uuid columnDefinitions) = insert ''id'' (dom columnDefinitions)
       \<and> items (handleAddItems columnDefinitions uuids subcategory)
           = items subcategory @ map (\<lambda>uuid. newItem uuid columnDefinitions) uuids"
proof -
  have keys: "dom (newItem uuid columnDefinitions) = insert ''id'' (dom columnDefinitions)"
    by (auto simp: newItem_def dom_def split: option.splits if_splits)
  have appended: "items (handleAddItems columnDefinitions uuids subcategory)
           = items subcategory @ map (\<lambda>uuid. newItem uuid columnDefinitions) uuids"
    by (simp add: handleAddItems_def Let_def)
  have val: "newItem uuid columnDefinitions k = Some (initialValue k def)"
    using assms by (simp add: newItem_def)
  show ?thesis
    unfolding val keys appended initialValue_def by simp
qed

theorem new_item_defaults_witness:
  "newItem ''id-1'' sampleColumns ''quantity'' = Some (JNumber (Num 1))
   \<and> newItem ''id-1'' sampleColumns ''unitPrice'' = Some (JNumber (Num 0))
   \<and> newItem ''id-1'' sampleColumns ''unit'' = Some (JString ''Pza'')
   \<and> newItem ''id-1'' sampleColumns ''description'' = Some (JString [])"
proof -
  obtain q where q: "sampleColumns ''quantity'' = Some q"
    by (simp add: sampleColumns_def)
  obtain p where p: "sampleColumns ''unitPrice'' = Some p" "dataType p = NumberData"
    by (simp add: sampleColumns_def)
  obtain u where u: "sampleColumns ''unit'' = Some u" "dataType u = StringData"
    "inputType u = SelectInput" "options u = Some [''Pza'', ''Kg'', ''m'']"
    by (simp add: sampleColumns_def)
  obtain d where d: "sampleColumns ''description'' = Some d" "dataType d = StringData"
    "inputType d = TextareaInput"
    by (simp add: sampleColumns_def)
  have "newItem ''id-1'' sampleColumns ''quantity'' = Some (JNumber (Num 1))"
    using new_item_defaults
      [where columnDefinitions = sampleColumns and k = "''quantity''" and def = q
        and uuid = "''id-1''", OF q]
    by simp
  moreover have "newItem ''id-1'' sampleColumns ''unitPrice'' = Some (JNumber (Num 0))"
    using new_item_defaults
      [where columnDefinitions = sampleColumns and k = "''unitPrice''" and def = p
        and uuid = "''id-1''", OF p(1)] p(2)
    by simp
  moreover have "newItem ''id-1'' sampleColumns ''unit'' = Some (JString ''Pza'')"
    using new_item_defaults
      [where columnDefinitions = sampleColumns and k = "''unit''" and def = u
        and uuid = "''id-1''", OF u(1)] u(2-)
    by simp
  moreover have "newItem ''id-1'' sampleColumns ''description'' = Some (JString [])"
    using new_item_defaults
      [where columnDefinitions = sampleColumns and k = "''description''" and def = d
        and uuid = "''id-1''", OF d(1)] d(2-)
    by simp
  ultimately show ?thesis
    by (intro conjI)
qed

section \<open>Properties of the folio numbers\<close>

text \<open>
  What \<open>getJulianDate\<close> computes as the day of the year: the UTC day of the year,
  shifted by the whole days in the time of day plus the offset of the local zone.
\<close>

lemma julianDayOfYear_shift:
  assumes "\<not> (0 \<le> utcFullYear date \<and> utcFullYear date \<le> 99)"
  shows "julianDayOfYear tza date = utcDayOfYear date + (utcMsInDay date + tza) div msPerDay"
proof -
  have "getTime date - localDayZeroOfYear tza (utcFullYear date)
          = utcDayOfYear date * msPerDay + (utcMsInDay date + tza)"
    using assms by (auto simp add: getTime_def localDayZeroOfYear_def Let_def algebra_simps)
  then show ?thesis
    by (simp add: julianDayOfYear_def Let_def msPerDay_def)
qed

text \<open>On a host whose local time is UTC the two examples of the specification hold.\<close>

lemma generateFolio_utc_host:
  "generateFolio 0 ''COT-'' 7 (utcMidnight 2024 3 5) = ''COT-000007-24065''"
  "generateFolio 0 ''X-'' 1 (utcMidnight 2024 1 1) = ''X-000001-24001''"
  by code_simp+

text \<open>
  C6. \<open>generateFolio\<close> should return the prefix, the sequence zero-padded to 6 digits,
  a hyphen, the last 2 digits of the year and the 3-digit day of the year, so that
  \<open>generateFolio('X-', 1, 2024-01-01)\<close> is X-000001-24001 and
  \<open>generateFolio('COT-', 7, 2024-03-05)\<close> is COT-000007-24065. On a host in the time
  zone UTC-06:00 the code returns the day before for both dates, as the editor builds
  them: day 000 and day 064.
\<close>

theorem generateFolio_west_of_utc:
  "generateFolio (- 21600000) ''X-'' 1 (utcMidnight 2024 1 1) = ''X-000001-24000''
   \<and> generateFolio (- 21600000) ''COT-'' 7 (utcMidnight 2024 3 5) = ''COT-000007-24064''
   \<and> validDate (utcMidnight 2024 1 1) \<and> validDate (utcMidnight 2024 3 5)"
  by code_simp

end
